theory Spec2Isabelle
  imports Complex_Main "HOL-Library.Multiset"
begin

section \<open>Python values shared by the data and model layers\<close>

text \<open>
  Exceptions are values. \<open>ValueError\<close> and \<open>KeyError\<close> carry what Python prints for
  them (the message, the missing key); \<open>IndexError\<close> is every out-of-range or
  ill-typed index into a list, an array or a tensor, and a reduction of torch over an
  empty dimension; \<open>RuntimeError\<close> is torch refusing shapes (stacking no tensor,
  operands that do not broadcast) or an integer that does not fit its 64 bits; \<open>UnboundLocalError\<close> is reading a local name that no
  branch assigned.

  \<open>Unmodelled\<close> is not a Python exception. It marks a run that leaves what is modelled
  here: a tensor of another rank than the code is written for, an array of another
  element type than 64-bit integers. No property below concludes anything from such a
  run.
\<close>

datatype py_error =
  ValueError string | KeyError string | IndexError | RuntimeError | UnboundLocalError
  | Unmodelled

text \<open>
  A float is a rational or NaN: rounding and the infinities are left out, NaN is kept
  because the mean of an empty span is NaN and not an exception.
\<close>

datatype fl = Fin rat | NaN

fun fadd :: "fl \<Rightarrow> fl \<Rightarrow> fl" where
  "fadd (Fin a) (Fin b) = Fin (a + b)"
| "fadd _ _ = NaN"

fun fmul :: "fl \<Rightarrow> fl \<Rightarrow> fl" where
  "fmul (Fin a) (Fin b) = Fin (a * b)"
| "fmul _ _ = NaN"

fun fmax :: "fl \<Rightarrow> fl \<Rightarrow> fl" where
  "fmax (Fin a) (Fin b) = Fin (max a b)"
| "fmax _ _ = NaN"

fun fdivn :: "fl \<Rightarrow> nat \<Rightarrow> fl" where
  "fdivn (Fin a) n = (if n = 0 then NaN else Fin (a / of_nat n))"
| "fdivn NaN n = NaN"

subsection \<open>Integers of 64 bits\<close>

text \<open>
  numpy holds a list of Python integers that all fit in 64 bits as an array of
  \<open>int64\<close> and adds in that type: past the largest value the sum starts again at the
  smallest. A list with a value outside that range makes numpy choose another element
  type (by the values and by its version), which is left out here.
\<close>

definition int64 :: "int \<Rightarrow> bool" where
  "int64 t = (- (2 ^ 63) \<le> t \<and> t < 2 ^ 63)"

definition int64_add :: "int \<Rightarrow> int \<Rightarrow> int" where
  "int64_add a b = (a + b + 2 ^ 63) mod 2 ^ 64 - 2 ^ 63"

definition np_array_add :: "int list \<Rightarrow> int \<Rightarrow> py_error + int list" where
  "np_array_add ts k =
     (if list_all int64 ts then Inr (map (\<lambda>t. int64_add t k) ts) else Inl Unmodelled)"

subsection \<open>Strings\<close>

text \<open>
  \<open>str.split(sep)\<close> with a one-character separator: the pieces between the
  separators, empty pieces kept, never an empty list.
\<close>

fun str_split :: "char \<Rightarrow> string \<Rightarrow> string list" where
  "str_split c [] = [[]]"
| "str_split c (x # xs) =
     (if x = c then [] # str_split c xs
      else (case str_split c xs of
              [] \<Rightarrow> [[x]]
            | w # ws \<Rightarrow> (x # w) # ws))"

text \<open>
  The characters \<open>str.strip()\<close> removes, among the code points below 256: tab, line
  feed, vertical tab, form feed, carriage return, the four separators 28 to 31, the
  space, NEL and the no-break space.
\<close>

definition isspace :: "char \<Rightarrow> bool" where
  "isspace c = (of_char c \<in> {9, 10, 11, 12, 13, 28, 29, 30, 31, 32, 133, 160 :: nat})"

definition lstrip :: "string \<Rightarrow> string" where
  "lstrip s = dropWhile isspace s"

definition rstrip :: "string \<Rightarrow> string" where
  "rstrip s = rev (dropWhile isspace (rev s))"

definition strip :: "string \<Rightarrow> string" where
  "strip s = rstrip (lstrip s)"

text \<open>\<open>line.rstrip("\n")\<close>: every trailing line feed goes, nothing else.\<close>

definition rstrip_nl :: "string \<Rightarrow> string" where
  "rstrip_nl s = rev (dropWhile (\<lambda>c. c = CHR 0x0A) (rev s))"

text \<open>Indexing a list or an array row with a non-negative index.\<close>

definition getitem :: "'a list \<Rightarrow> nat \<Rightarrow> py_error + 'a" where
  "getitem xs i = (if i < length xs then Inr (xs ! i) else Inl IndexError)"

text \<open>
  Indexing with a Python integer: \<open>-1\<close> is the last element, \<open>-len\<close> the first, and
  anything further out on either side raises.
\<close>

definition getitem_int :: "'a list \<Rightarrow> int \<Rightarrow> py_error + 'a" where
  "getitem_int xs i =
     (if 0 \<le> i \<and> i < int (length xs) then Inr (xs ! nat i)
      else if i < 0 \<and> - int (length xs) \<le> i then Inr (xs ! nat (int (length xs) + i))
      else Inl IndexError)"

section \<open>sentence\_probe\_data: the embedding table\<close>

text \<open>
  \<open>class Embedding\<close>: \<open>mtx\<close> is the list of rows, \<open>vocab\<close> maps a word to its row.
  \<open>np.array\<close> keeps the rows as they are.
\<close>

record Embedding =
  mtx :: "fl list list"
  vocab :: "string \<rightharpoonup> nat"

text \<open>
  \<open>Embedding.load_stream\<close>. \<open>float\<close> is Python's, taken as a parameter (\<open>None\<close> where it
  raises \<open>ValueError\<close>); \<open>filter'\<close> (the source's \<open>filter\_\<close>) is the optional set of words to keep, and an empty
  set is falsy, so it keeps every word.
\<close>

fun Embedding_load_stream_loop ::
  "(string \<Rightarrow> fl option) \<Rightarrow> string set option \<Rightarrow> string list \<Rightarrow> Embedding
     \<Rightarrow> py_error + Embedding" where
  "Embedding_load_stream_loop float filter' [] e = Inr e"
| "Embedding_load_stream_loop float filter' (line # stream) e =
     (let fd = str_split CHR '' '' (strip line) in
      if length fd = 2 then Embedding_load_stream_loop float filter' stream e
      else
        let word = hd fd in
        if (case filter' of None \<Rightarrow> False | Some F \<Rightarrow> F \<noteq> {} \<and> word \<notin> F)
        then Embedding_load_stream_loop float filter' stream e
        else
          (case those (map float (tl fd)) of
             None \<Rightarrow> Inl (ValueError ''could not convert string to float'')
           | Some row \<Rightarrow>
               Embedding_load_stream_loop float filter' stream
                 (e\<lparr>vocab := (vocab e)(word \<mapsto> length (mtx e)),
                    mtx := mtx e @ [row]\<rparr>)))"

definition Embedding_load_stream ::
  "(string \<Rightarrow> fl option) \<Rightarrow> string set option \<Rightarrow> string list \<Rightarrow> py_error + Embedding" where
  "Embedding_load_stream float filter' stream =
     Embedding_load_stream_loop float filter' stream \<lparr>mtx = [], vocab = Map.empty\<rparr>"

text \<open>\<open>Embedding.__getitem__\<close>.\<close>

definition Embedding_getitem :: "Embedding \<Rightarrow> string \<Rightarrow> py_error + fl list" where
  "Embedding_getitem e key =
     (case vocab e key of
        None \<Rightarrow> getitem (mtx e) 0
      | Some i \<Rightarrow> getitem (mtx e) i)"

section \<open>sentence\_probe\_data: batches of the embedding prober\<close>

text \<open>
  \<open>EmbeddingOnlyFields\<close> as \<open>to_idx\<close> fills it: one vector and one optional label index
  per sample. A batch is a value of the same class holding a slice.
\<close>

record EmbeddingOnlyFields =
  target_word :: "fl list list"
  label :: "nat option list"


text \<open>\<open>xs[start:end]\<close> for \<open>0 \<le> start\<close> and \<open>0 \<le> end\<close>.\<close>

definition slice :: "'a list \<Rightarrow> nat \<Rightarrow> nat \<Rightarrow> 'a list" where
  "slice xs start end' = drop start (take end' xs)"



section \<open>sentence\_probe\_data: the sequence-tagging dataset\<close>

text \<open>A raw sample of \<open>SequenceClassificationWithSubwords\<close>.\<close>

record SequenceClassificationWithSubwordsDataFields =
  raw_sentence :: "string list"
  labels :: "string list option"
  sentence_len :: nat
  tokens :: "string list"
  sentence_subword_len :: nat
  token_starts :: "nat list"

text \<open>
  The loop of \<open>create_sentence_from_lines\<close> over the lines of one block, on the four
  lists it grows; \<open>tokenize\<close> is the external tokenizer's.
\<close>

fun create_sentence_loop ::
  "(string \<Rightarrow> string list) \<Rightarrow> string list
     \<Rightarrow> string list \<times> string list \<times> nat list \<times> string list
     \<Rightarrow> string list \<times> string list \<times> nat list \<times> string list" where
  "create_sentence_loop tokenize [] st = st"
| "create_sentence_loop tokenize (line # lines) (sent, labs, starts, subwords) =
     (let fd = str_split CHR 0x09 (rstrip_nl line) in
      create_sentence_loop tokenize lines
        (sent @ [hd fd],
         (if length fd > 1 then labs @ [fd ! 1] else labs),
         starts @ [length subwords],
         subwords @ tokenize (hd fd)))"

definition create_sentence_from_lines ::
  "(string \<Rightarrow> string list) \<Rightarrow> string list \<Rightarrow> SequenceClassificationWithSubwordsDataFields" where
  "create_sentence_from_lines tokenize lines =
     (case create_sentence_loop tokenize lines ([], [], [], []) of
        (sent, labs, starts, subwords) \<Rightarrow>
          \<lparr>raw_sentence = sent,
           labels = (if length labs = 0 then None else Some labs),
           sentence_len = length sent,
           tokens = subwords,
           sentence_subword_len = length subwords,
           token_starts = starts @ [length subwords]\<rparr>)"

definition ignore_sample :: "SequenceClassificationWithSubwordsDataFields \<Rightarrow> bool" where
  "ignore_sample sample = (sentence_subword_len sample > 500)"

text \<open>
  \<open>SequenceClassificationWithSubwords.load_stream\<close>. The loop runs on the pair
  (\<open>raw\<close>, \<open>sent\<close>); a \<open>break\<close> leaves both as they are, \<open>sent\<close> still holding the block
  just read. \<open>max_samples\<close> is \<open>None\<close> or an integer, and \<open>0\<close> is falsy in the loop's test.
\<close>

definition add_sample ::
  "(string \<Rightarrow> string list) \<Rightarrow> string list
     \<Rightarrow> SequenceClassificationWithSubwordsDataFields list
     \<Rightarrow> SequenceClassificationWithSubwordsDataFields list" where
  "add_sample tokenize sent raw =
     (let sample = create_sentence_from_lines tokenize sent
      in if \<not> ignore_sample sample then raw @ [sample] else raw)"

fun SCWS_load_stream_loop ::
  "(string \<Rightarrow> string list) \<Rightarrow> int option \<Rightarrow> string list
     \<Rightarrow> SequenceClassificationWithSubwordsDataFields list \<times> string list
     \<Rightarrow> SequenceClassificationWithSubwordsDataFields list \<times> string list" where
  "SCWS_load_stream_loop tokenize max_samples [] (raw, sent) = (raw, sent)"
| "SCWS_load_stream_loop tokenize max_samples (line # stream) (raw, sent) =
     (if strip line = [] then
        (if sent \<noteq> [] then
           (let raw' = add_sample tokenize sent raw in
            if (case max_samples of None \<Rightarrow> False
                | Some k \<Rightarrow> k \<noteq> 0 \<and> int (length raw') \<ge> k)
            then (raw', sent)
            else SCWS_load_stream_loop tokenize max_samples stream (raw', []))
         else SCWS_load_stream_loop tokenize max_samples stream (raw, []))
      else SCWS_load_stream_loop tokenize max_samples stream (raw, sent @ [rstrip_nl line]))"

definition SCWS_load_stream ::
  "(string \<Rightarrow> string list) \<Rightarrow> int option \<Rightarrow> string list
     \<Rightarrow> SequenceClassificationWithSubwordsDataFields list" where
  "SCWS_load_stream tokenize max_samples stream =
     (case SCWS_load_stream_loop tokenize max_samples stream ([], []) of
        (raw, sent) \<Rightarrow>
          if sent \<noteq> [] \<and>
             (case max_samples of None \<Rightarrow> True | Some k \<Rightarrow> int (length raw) < k)
          then add_sample tokenize sent raw
          else raw)"

text \<open>
  What the input format says a stream holds: the maximal runs of non-blank lines, each
  line without its trailing line feeds. \<open>blocks_from\<close> carries the run being read.
\<close>

fun blocks_from :: "string list \<Rightarrow> string list \<Rightarrow> string list list" where
  "blocks_from cur [] = (if cur = [] then [] else [cur])"
| "blocks_from cur (line # stream) =
     (if strip line = []
      then (if cur = [] then blocks_from [] stream else cur # blocks_from [] stream)
      else blocks_from (cur @ [rstrip_nl line]) stream)"

definition blocks :: "string list \<Rightarrow> string list list" where
  "blocks stream = blocks_from [] stream"

text \<open>
  The samples of the given blocks that are not oversized, in the order of the blocks;
  \<open>kept1\<close> is the contribution of one block, one sample or none.
\<close>

definition kept ::
  "(string \<Rightarrow> string list) \<Rightarrow> string list list
     \<Rightarrow> SequenceClassificationWithSubwordsDataFields list" where
  "kept tokenize bs =
     filter (\<lambda>s. \<not> sentence_subword_len s > 500) (map (create_sentence_from_lines tokenize) bs)"

definition kept1 ::
  "(string \<Rightarrow> string list) \<Rightarrow> string list
     \<Rightarrow> SequenceClassificationWithSubwordsDataFields list" where
  "kept1 tokenize b = kept tokenize [b]"

section \<open>sentence\_probe\_data: indexing and padding\<close>

text \<open>
  The containers \<open>self.mtx\<close> that \<open>to_idx\<close> of the base dataset class leaves, one entry
  per sample in each field; a batch is a value of the same class holding a slice. The
  records list the fields the code below reads or writes and are used as schemes, so a
  dataset's other fields ride along untouched. \<open>SCWS\<close> is
  \<open>SequenceClassificationWithSubwords\<close>, \<open>SPD\<close> is \<open>SentenceProberDataset\<close>, \<open>MSPD\<close> is
  \<open>MidSentenceProberDataset\<close>, \<open>EPD\<close> above is \<open>EmbeddingProberDataset\<close>.

  The labels of a batch of sentences are a list of lists until \<open>batched_iter\<close>
  concatenates them.
\<close>

datatype labels_col = NoLabels | PerSentence "nat list list" | Flat "nat list"

record SCWS_Mtx =
  tokens :: "int list list"
  token_starts :: "nat list list"
  labels :: labels_col

record SPD_Mtx =
  tokens :: "int list list"
  token_starts :: "nat list list"
  target_idx :: "int list"

record MSPD_Mtx =
  target_idx :: "int list"

text \<open>
  The loop shared by the two \<open>to_idx\<close> that prefix token starts: \<open>ti\<close> counts the
  samples, and \<open>self.mtx.tokens[ti]\<close> raises when there is no such row.
\<close>

fun prefix_token_starts ::
  "int list list \<Rightarrow> nat \<Rightarrow> nat list list \<Rightarrow> py_error + nat list list" where
  "prefix_token_starts toks ti [] = Inr []"
| "prefix_token_starts toks ti (tokstarts # rest) =
     (case getitem toks ti of
        Inl e \<Rightarrow> Inl e
      | Inr row \<Rightarrow>
          (case prefix_token_starts toks (Suc ti) rest of
             Inl e \<Rightarrow> Inl e
           | Inr prefixed \<Rightarrow>
               Inr (([0] @ map (\<lambda>t. t + 1) tokstarts @ [length row + 1]) # prefixed)))"

text \<open>
  \<open>to_idx\<close> of the three datasets, each applied to what \<open>super().to_idx()\<close> has built
  (the base class is not part of the sources at hand, so its result is the argument).
  The token starts are shifted one by one as Python integers; the target indices are
  shifted as one numpy array, \<open>np.array(self.mtx.target_idx) + 1\<close>.
\<close>

definition SCWS_to_idx :: "'a SCWS_Mtx_scheme \<Rightarrow> py_error + 'a SCWS_Mtx_scheme" where
  "SCWS_to_idx m =
     (case prefix_token_starts (SCWS_Mtx.tokens m) 0 (SCWS_Mtx.token_starts m) of
        Inl e \<Rightarrow> Inl e
      | Inr prefixed \<Rightarrow> Inr (m\<lparr>SCWS_Mtx.token_starts := prefixed\<rparr>))"

definition SPD_to_idx :: "'a SPD_Mtx_scheme \<Rightarrow> py_error + 'a SPD_Mtx_scheme" where
  "SPD_to_idx m =
     (case prefix_token_starts (SPD_Mtx.tokens m) 0 (SPD_Mtx.token_starts m) of
        Inl e \<Rightarrow> Inl e
      | Inr prefixed \<Rightarrow>
          (case np_array_add (SPD_Mtx.target_idx m) 1 of
             Inl e \<Rightarrow> Inl e
           | Inr shifted \<Rightarrow>
               Inr (m\<lparr>SPD_Mtx.token_starts := prefixed, SPD_Mtx.target_idx := shifted\<rparr>)))"

definition MSPD_to_idx :: "'a MSPD_Mtx_scheme \<Rightarrow> py_error + 'a MSPD_Mtx_scheme" where
  "MSPD_to_idx m =
     (case np_array_add (MSPD_Mtx.target_idx m) 1 of
        Inl e \<Rightarrow> Inl e
      | Inr shifted \<Rightarrow> Inr (m\<lparr>MSPD_Mtx.target_idx := shifted\<rparr>))"

text \<open>
  The padding both \<open>batched_iter\<close> do on the token starts of one batch; \<open>max\<close> of no
  lengths raises.
\<close>

definition pad_token_starts :: "nat list list \<Rightarrow> py_error + nat list list" where
  "pad_token_starts rows =
     (if rows = [] then Inl (ValueError ''max() arg is an empty sequence'')
      else
        let maxlen = Max (set (map length rows)); pad = 1000
        in Inr (map (\<lambda>sample. sample @ replicate (maxlen - length sample) pad) rows))"

text \<open>
  The body of each \<open>batched_iter\<close> on one batch of the base class's iterator. The
  sequence-tagging one also concatenates the labels when there are any; labels that are
  flat already do not reach it and are left alone.
\<close>

definition SCWS_pad_batch :: "'a SCWS_Mtx_scheme \<Rightarrow> py_error + 'a SCWS_Mtx_scheme" where
  "SCWS_pad_batch batch =
     (case pad_token_starts (SCWS_Mtx.token_starts batch) of
        Inl e \<Rightarrow> Inl e
      | Inr padded \<Rightarrow>
          Inr (batch\<lparr>SCWS_Mtx.token_starts := padded,
                     labels := (case labels batch of
                                  PerSentence ls \<Rightarrow>
                                    if ls \<noteq> [] then Flat (concat ls) else PerSentence ls
                                | other \<Rightarrow> other)\<rparr>))"

definition SPD_pad_batch :: "'a SPD_Mtx_scheme \<Rightarrow> py_error + 'a SPD_Mtx_scheme" where
  "SPD_pad_batch batch =
     (case pad_token_starts (SPD_Mtx.token_starts batch) of
        Inl e \<Rightarrow> Inl e
      | Inr padded \<Rightarrow> Inr (batch\<lparr>SPD_Mtx.token_starts := padded\<rparr>))"

text \<open>
  A generator that transforms the batches of the base iterator one by one: what it
  yields, and the exception that ends it if a batch raises.
\<close>

fun yield_until_error :: "('b \<Rightarrow> py_error + 'b) \<Rightarrow> 'b list \<Rightarrow> (py_error + 'b) list" where
  "yield_until_error f [] = []"
| "yield_until_error f (b # bs) =
     (case f b of Inl e \<Rightarrow> [Inl e] | Inr b' \<Rightarrow> Inr b' # yield_until_error f bs)"

definition SCWS_batched_iter ::
  "'a SCWS_Mtx_scheme list \<Rightarrow> (py_error + 'a SCWS_Mtx_scheme) list" where
  "SCWS_batched_iter super_batches = yield_until_error SCWS_pad_batch super_batches"

definition SPD_batched_iter ::
  "'a SPD_Mtx_scheme list \<Rightarrow> (py_error + 'a SPD_Mtx_scheme) list" where
  "SPD_batched_iter super_batches = yield_until_error SPD_pad_batch super_batches"

section \<open>sentence\_probe\_data: samples of the sentence prober\<close>

text \<open>
  A raw sample of \<open>SentenceProberDataset\<close>, and the attributes of the dataset object
  that \<open>extract_sample_from_line\<close> reads: the external tokenizer's \<open>tokenize\<close>, its
  mask token, and the two configuration values.
\<close>

record TokenInSequenceProberFields =
  raw_sentence :: string
  raw_target :: string
  raw_idx :: int
  tokens :: "string list"
  num_tokens :: nat
  target_idx :: int
  label :: "string option"
  token_starts :: "nat list"

record SentenceProberDataset =
  tokenizer :: "string \<Rightarrow> string list"
  MASK :: string
  mask_positions :: "int set"
  bow :: bool

text \<open>
  \<open>np.argsort\<close>: the indices in the order of their values. The sort is only applied to a
  shuffled \<open>arange\<close>, whose values are distinct, so the order among equal values (which
  numpy's default sort leaves open) does not arise.
\<close>

definition argsort :: "nat list \<Rightarrow> nat list" where
  "argsort xs = sort_key (\<lambda>i. xs ! i) [0..<length xs]"

text \<open>\<open>[xs[i] for i in idx]\<close>.\<close>

fun getitems :: "'a list \<Rightarrow> nat list \<Rightarrow> py_error + 'a list" where
  "getitems xs [] = Inr []"
| "getitems xs (i # idx) =
     (case getitem xs i of
        Inl e \<Rightarrow> Inl e
      | Inr x \<Rightarrow> (case getitems xs idx of Inl e \<Rightarrow> Inl e | Inr ys \<Rightarrow> Inr (x # ys)))"

text \<open>The loop that concatenates the word pieces and records where each word starts.\<close>

fun merge_pieces ::
  "string list list \<Rightarrow> string list \<times> nat list \<Rightarrow> string list \<times> nat list" where
  "merge_pieces [] (merged, starts) = (merged, starts)"
| "merge_pieces (pieces # rest) (merged, starts) =
     merge_pieces rest (merged @ pieces, starts @ [length merged])"

text \<open>
  The branch \<open>if self.config.bow\<close>: \<open>shuffle\<close> is the outcome of \<open>np.random.shuffle\<close> on
  \<open>arange(len(tokenized))\<close>; the result is the shuffled groups and
  \<open>target_map[raw_idx]\<close>.
\<close>

definition perform_bow ::
  "(nat list \<Rightarrow> nat list) \<Rightarrow> string list list \<Rightarrow> int
     \<Rightarrow> py_error + string list list \<times> int" where
  "perform_bow shuffle tokenized idx =
     (let all_idx = shuffle [0..<length tokenized] in
      case getitems tokenized all_idx of
        Inl e \<Rightarrow> Inl e
      | Inr tokenized' \<Rightarrow>
          (let target_map = argsort all_idx in
           case getitem_int target_map idx of
             Inl e \<Rightarrow> Inl e
           | Inr pos \<Rightarrow> Inr (tokenized', int pos)))"

text \<open>
  \<open>SentenceProberDataset.extract_sample_from_line\<close>. \<open>int'\<close> is Python's \<open>int\<close> on a
  string (\<open>None\<close> where it raises). Unpacking \<open>fd[:3]\<close> into three names raises on fewer
  than three fields. The last lookup, \<open>token_starts[target_idx]\<close>, can raise; its value
  is assigned to a local name that is not read again, and the sample is built with
  \<open>target_idx=raw_idx\<close>.
\<close>

definition SPD_extract_sample_from_line ::
  "SentenceProberDataset \<Rightarrow> (string \<Rightarrow> int option) \<Rightarrow> (nat list \<Rightarrow> nat list) \<Rightarrow> string
     \<Rightarrow> py_error + TokenInSequenceProberFields" where
  "SPD_extract_sample_from_line self int' shuffle line =
     (let fd = str_split CHR 0x09 (rstrip_nl line) in
      if length fd < 3 then Inl (ValueError ''not enough values to unpack'')
      else
        let raw_sent = fd ! 0; raw_target' = fd ! 1;
            lab = (if length fd > 3 then Some (fd ! 3) else None)
        in
        case int' (fd ! 2) of
          None \<Rightarrow> Inl (ValueError ''invalid literal for int()'')
        | Some raw_idx' \<Rightarrow>
            let tokenized =
                  map (\<lambda>(ti, token).
                         if int ti - raw_idx' \<in> mask_positions self then [MASK self]
                         else tokenizer self token)
                      (enumerate 0 (str_split CHR '' '' raw_sent))
            in
            case (if bow self then perform_bow shuffle tokenized raw_idx'
                  else Inr (tokenized, raw_idx')) of
              Inl e \<Rightarrow> Inl e
            | Inr (tokenized', target_idx') \<Rightarrow>
                (case merge_pieces tokenized' ([], []) of
                   (merged, starts) \<Rightarrow>
                     (case getitem_int starts target_idx' of
                        Inl e \<Rightarrow> Inl e
                      | Inr target_idx'' \<Rightarrow>
                          Inr \<lparr>raw_sentence = raw_sent,
                               raw_target = raw_target',
                               raw_idx = raw_idx',
                               tokens = merged,
                               num_tokens = length merged,
                               target_idx = raw_idx',
                               label = lab,
                               token_starts = starts\<rparr>)))"

text \<open>The words of a block of the sequence-tagging format: the first field of each line.\<close>

definition block_words :: "string list \<Rightarrow> string list" where
  "block_words lines = map (\<lambda>line. hd (str_split CHR 0x09 (rstrip_nl line))) lines"

section \<open>contextual\_embedding\_classifier: tensors\<close>

text \<open>
  Tensors are nested lists of floats, rectangular by the contract of the encoder that
  produces them: a vector per position, a matrix per sentence, a rank 3 tensor per
  layer, and the rank 4 stack of the layers.
\<close>

type_synonym tensor2 = "fl list list"
type_synonym tensor3 = "fl list list list"
type_synonym tensor4 = "fl list list list list"

text \<open>Sequencing of steps that can raise: the first exception ends the run.\<close>

definition and_then :: "py_error + 'a \<Rightarrow> ('a \<Rightarrow> py_error + 'b) \<Rightarrow> py_error + 'b" where
  "and_then r f = (case r of Inl e \<Rightarrow> Inl e | Inr x \<Rightarrow> f x)"

fun collect :: "(py_error + 'a) list \<Rightarrow> py_error + 'a list" where
  "collect [] = Inr []"
| "collect (r # rs) =
     (case r of
        Inl e \<Rightarrow> Inl e
      | Inr x \<Rightarrow> (case collect rs of Inl e \<Rightarrow> Inl e | Inr xs \<Rightarrow> Inr (x # xs)))"

text \<open>
  Broadcasting of two one-dimensional operands: equal lengths pair up, an operand of
  length one is repeated, anything else does not broadcast.
\<close>

definition broadcast2 :: "'a list \<Rightarrow> 'b list \<Rightarrow> ('a \<times> 'b) list option" where
  "broadcast2 xs ys =
     (if length xs = length ys then Some (zip xs ys)
      else if length xs = 1 then Some (map (\<lambda>y. (hd xs, y)) ys)
      else if length ys = 1 then Some (map (\<lambda>x. (x, hd ys)) xs)
      else None)"

text \<open>
  \<open>torch.LongTensor(rows)\<close> and \<open>np.array(rows).flat\<close> of a list of lists. Both are
  taken to raise on ragged rows. torch stores row after row: a row of another length
  than the first is refused when its turn comes, and so is a value that does not fit
  64 bits (\<open>Overflow when unpacking long\<close>).
\<close>

definition rectangular :: "'a list list \<Rightarrow> bool" where
  "rectangular rows = list_all (\<lambda>r. length r = length (hd rows)) rows"

definition LongTensor_row :: "nat \<Rightarrow> int list \<Rightarrow> py_error + int list" where
  "LongTensor_row n row =
     (if length row \<noteq> n then Inl (ValueError ''expected sequence of equal length'')
      else if list_all int64 row then Inr row
      else Inl RuntimeError)"

definition LongTensor :: "int list list \<Rightarrow> py_error + int list list" where
  "LongTensor rows = collect (map (LongTensor_row (length (hd rows))) rows)"

definition np_flat :: "int list list \<Rightarrow> py_error + int list" where
  "np_flat rows =
     (if rectangular rows then Inr (concat rows)
      else Inl (ValueError ''inhomogeneous shape''))"

text \<open>
  \<open>a[rows, cols]\<close> with two index arrays on a rank 2 array (the columns may be
  negative), and \<open>t[rows, cols]\<close>, \<open>t[:, rows, cols]\<close> on tensors.
\<close>

definition index_pairs :: "'a list list \<Rightarrow> nat list \<Rightarrow> int list \<Rightarrow> py_error + 'a list" where
  "index_pairs a rows cols =
     (case broadcast2 rows cols of
        None \<Rightarrow> Inl IndexError
      | Some ps \<Rightarrow>
          collect (map (\<lambda>(r, c). and_then (getitem a r) (\<lambda>row. getitem_int row c)) ps))"

definition index_pairs_layers ::
  "tensor4 \<Rightarrow> nat list \<Rightarrow> int list \<Rightarrow> py_error + tensor3" where
  "index_pairs_layers t rows cols = collect (map (\<lambda>layer. index_pairs layer rows cols) t)"

text \<open>Arithmetic on tensors of equal shape, and the reductions over the first axis.\<close>

definition vec_add :: "fl list \<Rightarrow> fl list \<Rightarrow> fl list" where
  "vec_add u v = map2 fadd u v"

definition t2_add :: "tensor2 \<Rightarrow> tensor2 \<Rightarrow> tensor2" where
  "t2_add a b = map2 vec_add a b"

definition t3_add :: "tensor3 \<Rightarrow> tensor3 \<Rightarrow> tensor3" where
  "t3_add a b = map2 t2_add a b"

definition t2_scale :: "fl \<Rightarrow> tensor2 \<Rightarrow> tensor2" where
  "t2_scale w a = map (map (fmul w)) a"

definition t3_scale :: "fl \<Rightarrow> tensor3 \<Rightarrow> tensor3" where
  "t3_scale w a = map (t2_scale w) a"

text \<open>
  \<open>torch.stack\<close> of a tuple of tensors (none is an error), and \<open>.sum(0)\<close> over the
  stacked axis of a stack that holds at least one tensor.
\<close>

definition stack :: "'a list \<Rightarrow> py_error + 'a list" where
  "stack ts = (if ts = [] then Inl RuntimeError else Inr ts)"

definition sum0_t3 :: "tensor4 \<Rightarrow> tensor3" where
  "sum0_t3 layers = foldl t3_add (hd layers) (tl layers)"

definition sum0_t2 :: "tensor3 \<Rightarrow> tensor2" where
  "sum0_t2 layers = foldl t2_add (hd layers) (tl layers)"

text \<open>
  The reductions of a span of subword vectors over its positions, for vectors of
  \<open>h\<close> components: the sum of no vector is the zero vector, the mean of no vector is
  NaN in every component, and the maximum of no vector is an error of torch.
\<close>

definition span_sum :: "nat \<Rightarrow> tensor2 \<Rightarrow> fl list" where
  "span_sum h vs =
     (if vs = [] then replicate h (Fin 0) else foldl vec_add (hd vs) (tl vs))"

definition span_mean :: "nat \<Rightarrow> tensor2 \<Rightarrow> fl list" where
  "span_mean h vs = map (\<lambda>x. fdivn x (length vs)) (span_sum h vs)"

definition span_max :: "tensor2 \<Rightarrow> py_error + fl list" where
  "span_max vs =
     (if vs = [] then Inl IndexError else Inr (foldl (map2 fmax) (hd vs) (tl vs)))"

section \<open>contextual\_embedding\_classifier: the embedder\<close>

text \<open>
  A pooling setting as the configuration gives it: a name or a layer number.
  \<open>Embedder.__init__\<close> turns a name that \<open>int\<close> accepts into the number.
\<close>

datatype pooling = LayerName string | LayerIndex int

definition Embedder_init_layer_pooling :: "(string \<Rightarrow> int option) \<Rightarrow> pooling \<Rightarrow> pooling" where
  "Embedder_init_layer_pooling int' lp =
     (case lp of
        LayerIndex n \<Rightarrow> LayerIndex n
      | LayerName s \<Rightarrow> (case int' s of Some n \<Rightarrow> LayerIndex n | None \<Rightarrow> LayerName s))"

text \<open>
  \<open>class Embedder\<close>. \<open>encoder\<close> is \<open>Embedder.forward\<close>: the frozen pretrained model run
  on the token ids and the sentence lengths, giving the hidden states of every layer.
  \<open>softmax_weights\<close> is \<open>self.softmax(self.weights)\<close>, the normalised layer weights,
  and \<open>hidden_size\<close> the size \<open>get_sizes\<close> measured.
\<close>

record Embedder =
  encoder :: "int list list \<Rightarrow> nat list \<Rightarrow> tensor4"
  layer_pooling :: pooling
  softmax_weights :: "fl list"
  hidden_size :: nat

text \<open>What \<open>embed\<close> returns: the stack of all layers, or one pooled tensor.\<close>

datatype embedded = Stacked tensor4 | Pooled tensor3

text \<open>
  The layers of a stack that holds at least one, each scaled by its weight and summed;
  no weight against one layer broadcasts to an empty sum, which is zero everywhere.
\<close>

definition weighted_layers :: "fl list \<Rightarrow> tensor4 \<Rightarrow> py_error + tensor3" where
  "weighted_layers w layers =
     (case broadcast2 w layers of
        None \<Rightarrow> Inl RuntimeError
      | Some wl \<Rightarrow>
          if wl = [] then Inr (map (map (map (\<lambda>x. Fin 0))) (hd layers))
          else Inr (sum0_t3 (map (\<lambda>(wi, l). t3_scale wi l) wl)))"

definition Embedder_embed ::
  "Embedder \<Rightarrow> int list list \<Rightarrow> nat list \<Rightarrow> py_error + embedded" where
  "Embedder_embed self sentences sentence_lens =
     (let out = encoder self sentences sentence_lens in
      if layer_pooling self = LayerName ''weighted_sum'' then
        and_then (stack out) (\<lambda>layers.
        and_then (weighted_layers (softmax_weights self) layers) (\<lambda>t. Inr (Pooled t)))
      else if layer_pooling self = LayerName ''all'' then
        and_then (stack out) (\<lambda>layers. Inr (Stacked layers))
      else if layer_pooling self = LayerName ''sum'' then
        and_then (stack out) (\<lambda>layers. Inr (Pooled (sum0_t3 layers)))
      else if layer_pooling self = LayerName ''last'' then
        and_then (getitem_int out (- 1)) (\<lambda>t. Inr (Pooled t))
      else if layer_pooling self = LayerName ''first'' then
        and_then (getitem_int out 0) (\<lambda>t. Inr (Pooled t))
      else
        (case layer_pooling self of
           LayerIndex n \<Rightarrow> and_then (getitem_int out n) (\<lambda>t. Inr (Pooled t))
         | LayerName s \<Rightarrow> Inl (ValueError (''Unknown pooling mechanism: '' @ s))))"

section \<open>contextual\_embedding\_classifier: batches\<close>

text \<open>
  The fields of a batch that the two models read. \<open>input\<close> is the padded matrix of
  token ids (the alias of \<open>tokens\<close>), \<open>token_starts\<close> the padded matrix built by
  \<open>batched_iter\<close>.
\<close>

record Batch =
  input :: "int list list"
  input_len :: "nat list"
  sentence_subword_len :: "nat list"
  sentence_len :: "nat list"
  probe_target_idx :: "int list"
  token_starts :: "nat list list"

section \<open>contextual\_embedding\_classifier: SentenceRepresentationProber\<close>

text \<open>
  The model object (\<open>SRP\<close>). Its embedder is built with layer pooling \<open>all\<close>; the
  model keeps the configured \<open>layer_pooling\<close> itself, as the configuration gives it.
  \<open>softmax_weights\<close> is \<open>self.softmax(self.weights)\<close>. The four poolings no property
  here is about (\<open>last2\<close>, \<open>f+l\<close>, \<open>lstm\<close>, \<open>attn\<close>, two of them trained networks)
  are the parameter \<open>other_pooling\<close>, given the name, the embedded tensor and the batch.

  The state is the cache and, for observation, the number of encoder runs so far.
  What is cached is a matrix of target vectors, or for \<open>weighted_sum\<close> one such matrix
  per layer.
\<close>

record SRP =
  embedder :: Embedder
  subword_pooling :: string
  layer_pooling :: pooling
  shift_target :: int
  softmax_weights :: "fl list"
  other_pooling :: "string \<Rightarrow> tensor3 \<Rightarrow> Batch \<Rightarrow> py_error + tensor2"

datatype cached = Vecs tensor2 | LayerVecs tensor3

record SRP_state =
  cache :: "(int list \<times> int list) \<rightharpoonup> cached"
  encoder_calls :: nat

text \<open>\<open>SentenceRepresentationProber.__init__\<close>, as far as these fields go.\<close>

definition SRP_init ::
  "(int list list \<Rightarrow> nat list \<Rightarrow> tensor4) \<Rightarrow> nat \<Rightarrow> string \<Rightarrow> pooling \<Rightarrow> int \<Rightarrow> fl list
     \<Rightarrow> (string \<Rightarrow> tensor3 \<Rightarrow> Batch \<Rightarrow> py_error + tensor2) \<Rightarrow> SRP \<times> SRP_state" where
  "SRP_init enc h sp lp shift w other =
     (\<lparr>embedder = \<lparr>encoder = enc, layer_pooling = LayerName ''all'',
                    softmax_weights = [], hidden_size = h\<rparr>,
       subword_pooling = sp, layer_pooling = lp, shift_target = shift,
       softmax_weights = w, other_pooling = other\<rparr>,
      \<lparr>cache = Map.empty, encoder_calls = 0\<rparr>)"

text \<open>The table \<open>self.pooling_func\<close>: which method serves which name.\<close>

datatype SRP_method =
  forward_first_last | forward_elementwise_pool | forward_last2 | forward_first_plus_last
  | forward_lstm | forward_mlp

definition SRP_pooling_func :: "(string \<times> SRP_method) list" where
  "SRP_pooling_func =
     [(''first'', forward_first_last),
      (''last'', forward_first_last),
      (''max'', forward_elementwise_pool),
      (''sum'', forward_elementwise_pool),
      (''avg'', forward_elementwise_pool),
      (''last2'', forward_last2),
      (''f+l'', forward_first_plus_last),
      (''lstm'', forward_lstm),
      (''attn'', forward_mlp)]"

text \<open>
  The body of the loop of \<open>_forward_elementwise_pool\<close> for one span: an \<open>if\<close> for
  \<open>max\<close>, then a separate \<open>if\<close>/\<open>else\<close> for \<open>sum\<close> against everything else, which
  assigns \<open>o\<close> again.
\<close>

definition elementwise_o :: "string \<Rightarrow> nat \<Rightarrow> tensor2 \<Rightarrow> py_error + fl list" where
  "elementwise_o sp h vs =
     and_then (if sp = ''max'' then span_max vs else Inr []) (\<lambda>o1.
       if sp = ''sum'' then Inr (span_sum h vs) else Inr (span_mean h vs))"

definition SRP_forward_elementwise_pool :: "SRP \<Rightarrow> tensor3 \<Rightarrow> Batch \<Rightarrow> py_error + tensor2" where
  "SRP_forward_elementwise_pool self emb batch =
     (let sp = subword_pooling self;
          batch_size = length emb;
          helper = [0..<batch_size];
          tidx = probe_target_idx batch
      in
      and_then (index_pairs (Batch.token_starts batch) helper (map (\<lambda>t. t + 1) tidx)) (\<lambda>lasts.
      and_then (index_pairs (Batch.token_starts batch) helper tidx) (\<lambda>firsts.
      and_then (collect (map (\<lambda>wi.
                  and_then (getitem firsts wi) (\<lambda>f.
                  and_then (getitem lasts wi) (\<lambda>l.
                    elementwise_o sp (hidden_size (embedder self)) (slice (emb ! wi) f l))))
                [0..<batch_size])) (\<lambda>target_vecs.
      stack target_vecs))))"

text \<open>
  The target shift of \<open>_forward_first_last\<close>: add the shift, cap each index by the
  last position of its sentence, then clip to \<open>0\<close> and the largest such cap.
\<close>

definition shift_idx :: "int \<Rightarrow> nat list \<Rightarrow> int list \<Rightarrow> py_error + int list" where
  "shift_idx shift lens idx =
     (let shift_max = map (\<lambda>n. int n - 1) lens;
          idx1 = map (\<lambda>i. i + shift) idx
      in
      case broadcast2 idx1 shift_max of
        None \<Rightarrow> Inl (ValueError ''operands could not be broadcast together'')
      | Some ps \<Rightarrow>
          if shift_max = [] then Inl (ValueError ''zero-size array to reduction operation'')
          else
            let top = Max (set shift_max)
            in Inr (map (\<lambda>(i, m). min (max (min i m) 0) top) ps))"

text \<open>
  \<open>_forward_first_last\<close>. On a miss the encoder runs and the pooled target vectors
  are stored under the key; then the stored value is read, and weighted over the layers
  for \<open>weighted_sum\<close> (\<open>SRP_read\<close>). A stored value of the other kind than the layer
  pooling asks for, or one with no layer at all, cannot come from this model's own
  stores.
\<close>

definition SRP_compute_first_last :: "SRP \<Rightarrow> Batch \<Rightarrow> py_error + cached" where
  "SRP_compute_first_last self batch =
     and_then (LongTensor (input batch)) (\<lambda>X.
     and_then (Embedder_embed (embedder self) X (input_len batch)) (\<lambda>emb.
     and_then (case emb of Stacked layers \<Rightarrow> Inr layers | Pooled t \<Rightarrow> Inl Unmodelled) (\<lambda>layers.
     let batch_size = length (hd layers);
         helper = [0..<batch_size];
         tidx = probe_target_idx batch;
         sp = subword_pooling self
     in
     and_then
       (if sp = ''first'' then
          and_then (index_pairs (Batch.token_starts batch) helper tidx) (\<lambda>v. Inr (map int v))
        else if sp = ''last'' then
          and_then (index_pairs (Batch.token_starts batch) helper (map (\<lambda>t. t + 1) tidx))
            (\<lambda>v. Inr (map (\<lambda>x. int x - 1) v))
        else Inl (ValueError (''Subword pooling '' @ sp @ '' with caching is not supported.'')))
       (\<lambda>idx.
     and_then (if shift_target self \<noteq> 0 then shift_idx (shift_target self) (input_len batch) idx
               else Inr idx) (\<lambda>idx'.
     and_then (index_pairs_layers layers helper idx') (\<lambda>target_vecs.
       if SRP.layer_pooling self = LayerName ''weighted_sum'' then Inr (LayerVecs target_vecs)
       else if SRP.layer_pooling self = LayerName ''sum'' then Inr (Vecs (sum0_t2 target_vecs))
       else
         (case SRP.layer_pooling self of
            LayerIndex n \<Rightarrow> and_then (getitem_int target_vecs n) (\<lambda>t. Inr (Vecs t))
          | LayerName s \<Rightarrow> Inl IndexError)))))))"

definition SRP_read :: "SRP \<Rightarrow> cached \<Rightarrow> py_error + tensor2" where
  "SRP_read self v =
     (if SRP.layer_pooling self = LayerName ''weighted_sum'' then
        (case v of
           LayerVecs t \<Rightarrow>
             (case broadcast2 (SRP.softmax_weights self) t of
                None \<Rightarrow> Inl RuntimeError
              | Some wl \<Rightarrow>
                  if wl \<noteq> [] then Inr (sum0_t2 (map (\<lambda>(wi, l). t2_scale wi l) wl))
                  else if t \<noteq> [] then Inr (map (map (\<lambda>x. Fin 0)) (hd t))
                  else Inl Unmodelled)
         | Vecs t \<Rightarrow> Inl Unmodelled)
      else
        (case v of Vecs t \<Rightarrow> Inr t | LayerVecs t \<Rightarrow> Inl Unmodelled))"

definition SRP_forward_first_last ::
  "SRP \<Rightarrow> SRP_state \<Rightarrow> Batch \<Rightarrow> py_error + tensor2 \<times> SRP_state" where
  "SRP_forward_first_last self st batch =
     and_then (np_flat (input batch)) (\<lambda>flat.
     let cache_key = (flat, probe_target_idx batch) in
     and_then
       (if cache st cache_key = None then
          and_then (SRP_compute_first_last self batch) (\<lambda>v.
            Inr (st\<lparr>cache := (cache st)(cache_key \<mapsto> v),
                     encoder_calls := encoder_calls st + 1\<rparr>))
        else Inr st) (\<lambda>st'.
     case cache st' cache_key of
       None \<Rightarrow> Inl (KeyError ''cache_key'')
     | Some v \<Rightarrow> and_then (SRP_read self v) (\<lambda>t. Inr (t, st'))))"

text \<open>
  \<open>SentenceRepresentationProber.forward\<close> up to the classifier head: the result is
  \<open>target_vecs\<close>, the argument of \<open>self.mlp\<close>. For any pooling other than \<open>first\<close> and
  \<open>last\<close> the encoder runs on every call (the source notes that caching is not
  supported there), the layers are summed or one is picked, and only then is the
  pooling looked up in the table.
\<close>

definition SRP_embedded_layer :: "SRP \<Rightarrow> Batch \<Rightarrow> py_error + tensor3" where
  "SRP_embedded_layer self batch =
     and_then (LongTensor (input batch)) (\<lambda>X.
     and_then (Embedder_embed (embedder self) X (input_len batch)) (\<lambda>emb.
     and_then (case emb of Stacked layers \<Rightarrow> Inr layers | Pooled t \<Rightarrow> Inl Unmodelled) (\<lambda>layers.
       if SRP.layer_pooling self = LayerName ''sum'' then Inr (sum0_t3 layers)
       else
         (case SRP.layer_pooling self of
            LayerIndex n \<Rightarrow> getitem_int layers n
          | LayerName s \<Rightarrow> Inl IndexError))))"

definition SRP_forward ::
  "SRP \<Rightarrow> SRP_state \<Rightarrow> Batch \<Rightarrow> py_error + tensor2 \<times> SRP_state" where
  "SRP_forward self st batch =
     (let sp = subword_pooling self in
      if sp = ''first'' \<or> sp = ''last'' then SRP_forward_first_last self st batch
      else
        and_then (SRP_embedded_layer self batch) (\<lambda>emb.
        and_then
          (case map_of SRP_pooling_func sp of
             None \<Rightarrow> Inl (KeyError sp)
           | Some forward_elementwise_pool \<Rightarrow> SRP_forward_elementwise_pool self emb batch
           | Some m \<Rightarrow> other_pooling self sp emb batch) (\<lambda>target_vecs.
        Inr (target_vecs, st\<lparr>encoder_calls := encoder_calls st + 1\<rparr>))))"

section \<open>contextual\_embedding\_classifier: TransformerForSequenceTagging\<close>

text \<open>
  The model object (\<open>TST\<close>). Its embedder carries the configured layer pooling. The
  four poolings that do not go through the cache (\<open>last2\<close>, \<open>f+l\<close>, \<open>lstm\<close>,
  \<open>attn\<close>) all open the same way, with the tensor of token ids and the embedding;
  what each does with the embedded sentences (two of them with trained networks) is the
  parameter \<open>other_pooling\<close>, given the name, the embedded tensor and the batch. The
  cache maps the flattened token ids of a batch to the pooled matrix, one row per word.
\<close>

record TST_state =
  cache :: "int list \<rightharpoonup> tensor2"
  encoder_calls :: nat

record TST =
  embedder :: Embedder
  subword_pooling :: string
  other_pooling :: "string \<Rightarrow> tensor3 \<Rightarrow> Batch \<Rightarrow> py_error + tensor2"

datatype TST_method =
  forward_with_cache | forward_last2 | forward_first_plus_last | forward_lstm | forward_mlp

definition TST_pooling_func :: "(string \<times> TST_method) list" where
  "TST_pooling_func =
     [(''first'', forward_with_cache),
      (''last'', forward_with_cache),
      (''max'', forward_with_cache),
      (''sum'', forward_with_cache),
      (''avg'', forward_with_cache),
      (''last2'', forward_last2),
      (''f+l'', forward_first_plus_last),
      (''lstm'', forward_lstm),
      (''attn'', forward_mlp)]"

text \<open>
  The branch of \<open>_forward_with_cache\<close> for \<open>first\<close> and \<open>last\<close>: for every sentence
  the positions \<open>token_starts[bi][1:sentence_len + 1]\<close>, or
  \<open>token_starts[bi][2:sentence_len + 2] - 1\<close>, and as many copies of \<open>bi\<close>; then
  \<open>embedded[batch_ids, token_ids]\<close>. Concatenating nothing raises.
\<close>

definition TST_first_last_ids :: "string \<Rightarrow> Batch \<Rightarrow> nat \<Rightarrow> py_error + nat list \<times> int list" where
  "TST_first_last_ids sp batch bi =
     and_then (getitem (Batch.sentence_len batch) bi) (\<lambda>n.
     and_then (getitem (Batch.token_starts batch) bi) (\<lambda>row.
       Inr (replicate n bi,
            if sp = ''first'' then map int (slice row 1 (n + 1))
            else map (\<lambda>x. int x - 1) (slice row 2 (n + 2)))))"

definition TST_pool_first_last :: "string \<Rightarrow> tensor3 \<Rightarrow> Batch \<Rightarrow> nat \<Rightarrow> py_error + tensor2" where
  "TST_pool_first_last sp emb batch batch_size =
     and_then (collect (map (TST_first_last_ids sp batch) [0..<batch_size])) (\<lambda>ids.
       if ids = [] then Inl (ValueError ''need at least one array to concatenate'')
       else index_pairs emb (concat (map fst ids)) (concat (map snd ids)))"

text \<open>
  The branch for \<open>max\<close>, \<open>avg\<close> and \<open>sum\<close>: for word \<open>ti\<close> of sentence \<open>bi\<close> the
  span from \<open>token_starts[bi][ti + 1]\<close> to \<open>token_starts[bi][ti + 2]\<close>, reduced by the
  one branch of the \<open>if\<close>/\<open>elif\<close> chain that matches.
\<close>

definition TST_pool_word :: "string \<Rightarrow> nat \<Rightarrow> tensor3 \<Rightarrow> Batch \<Rightarrow> nat \<Rightarrow> nat \<Rightarrow> py_error + fl list" where
  "TST_pool_word sp h emb batch bi ti =
     and_then (getitem (Batch.token_starts batch) bi) (\<lambda>row.
     and_then (getitem row (ti + 1)) (\<lambda>f.
     and_then (getitem row (ti + 2)) (\<lambda>l.
     and_then (getitem emb bi) (\<lambda>sent.
       if sp = ''sum'' then Inr (span_sum h (slice sent f l))
       else if sp = ''avg'' then Inr (span_mean h (slice sent f l))
       else if sp = ''max'' then span_max (slice sent f l)
       else Inl UnboundLocalError))))"

definition TST_pool_spans :: "string \<Rightarrow> nat \<Rightarrow> tensor3 \<Rightarrow> Batch \<Rightarrow> nat \<Rightarrow> py_error + tensor2" where
  "TST_pool_spans sp h emb batch batch_size =
     and_then (collect (map (\<lambda>bi.
                 and_then (getitem (Batch.sentence_len batch) bi) (\<lambda>n.
                   collect (map (TST_pool_word sp h emb batch bi) [0..<n])))
               [0..<batch_size])) (\<lambda>outs. stack (concat outs))"

text \<open>
  \<open>_forward_with_cache\<close>. The key is the flattened token ids alone. On a miss the
  encoder runs, the words are pooled and the result is stored; the stored matrix is
  returned. A pooling name that neither branch tests leaves \<open>out\<close> unassigned.
\<close>

definition TST_compute :: "TST \<Rightarrow> int list list \<Rightarrow> Batch \<Rightarrow> py_error + tensor2" where
  "TST_compute self X batch =
     (let sp = TST.subword_pooling self; batch_size = length X in
      and_then (Embedder_embed (TST.embedder self) X (Batch.sentence_subword_len batch)) (\<lambda>emb.
      and_then (case emb of Pooled t \<Rightarrow> Inr t | Stacked layers \<Rightarrow> Inl Unmodelled) (\<lambda>t.
        if sp = ''first'' \<or> sp = ''last'' then TST_pool_first_last sp t batch batch_size
        else if sp = ''max'' \<or> sp = ''avg'' \<or> sp = ''sum'' then
          TST_pool_spans sp (hidden_size (TST.embedder self)) t batch batch_size
        else Inl UnboundLocalError)))"

definition TST_forward_with_cache ::
  "TST \<Rightarrow> TST_state \<Rightarrow> Batch \<Rightarrow> py_error + tensor2 \<times> TST_state" where
  "TST_forward_with_cache self st batch =
     and_then (LongTensor (input batch)) (\<lambda>X.
     and_then (np_flat (input batch)) (\<lambda>cache_key.
     and_then
       (if TST_state.cache st cache_key = None then
          and_then (TST_compute self X batch) (\<lambda>out.
            Inr (st\<lparr>TST_state.cache := (TST_state.cache st)(cache_key \<mapsto> out),
                     TST_state.encoder_calls := TST_state.encoder_calls st + 1\<rparr>))
        else Inr st) (\<lambda>st'.
     case TST_state.cache st' cache_key of
       None \<Rightarrow> Inl (KeyError ''cache_key'')
     | Some out \<Rightarrow> Inr (out, st'))))"

text \<open>
  \<open>_forward_last2\<close>, \<open>_forward_first_plus_last\<close>, \<open>_forward_lstm\<close> and
  \<open>_forward_mlp\<close>: each builds the tensor of token ids, embeds it with the sentence
  lengths in subwords, reads the three sizes of the result, and pools. Nothing is
  cached, so the encoder runs on every call.
\<close>

definition TST_forward_uncached ::
  "TST \<Rightarrow> TST_state \<Rightarrow> Batch \<Rightarrow> py_error + tensor2 \<times> TST_state" where
  "TST_forward_uncached self st batch =
     and_then (LongTensor (input batch)) (\<lambda>X.
     and_then (Embedder_embed (TST.embedder self) X (Batch.sentence_subword_len batch)) (\<lambda>emb.
     and_then (case emb of Pooled t \<Rightarrow> Inr t | Stacked layers \<Rightarrow> Inl Unmodelled) (\<lambda>t.
     and_then (TST.other_pooling self (TST.subword_pooling self) t batch) (\<lambda>out.
       Inr (out, st\<lparr>TST_state.encoder_calls := TST_state.encoder_calls st + 1\<rparr>)))))"

text \<open>
  \<open>TransformerForSequenceTagging.forward\<close> up to dropout and the classifier head: the
  result is \<open>out\<close> as the pooling method returns it.
\<close>

definition TST_forward ::
  "TST \<Rightarrow> TST_state \<Rightarrow> Batch \<Rightarrow> py_error + tensor2 \<times> TST_state" where
  "TST_forward self st batch =
     (let sp = TST.subword_pooling self in
      case map_of TST_pooling_func sp of
        None \<Rightarrow> Inl (KeyError sp)
      | Some forward_with_cache \<Rightarrow> TST_forward_with_cache self st batch
      | Some m \<Rightarrow> TST_forward_uncached self st batch)"



section \<open>Properties\<close>

subsection \<open>Loading the sequence-tagging data\<close>

lemma add_sample_kept: "add_sample tok sent raw = raw @ kept1 tok sent"
  by (simp add: add_sample_def kept_def kept1_def ignore_sample_def Let_def)

lemma kept_Cons: "kept tok (b # bs) = kept1 tok b @ kept tok bs"
  by (simp add: kept_def kept1_def)

lemma kept_Nil: "kept tok [] = []"
  by (simp add: kept_def)

lemma length_kept1: "length (kept1 tok b) \<le> 1"
  by (simp add: kept_def kept1_def)

lemma load_lines_None:
  "SCWS_load_stream_loop tok None stream (raw, sent) = (raw', sent') \<Longrightarrow>
   (if sent' \<noteq> [] then add_sample tok sent' raw' else raw') = raw @ kept tok (blocks_from sent stream)"
proof (induction stream arbitrary: raw sent)
  case Nil
  then show ?case by (auto simp: add_sample_kept kept_Cons kept_Nil)
next
  case (Cons line stream)
  show ?case
  proof (cases "strip line = []")
    case blank: True
    show ?thesis
    proof (cases "sent = []")
      case True
      with blank Cons.prems have "SCWS_load_stream_loop tok None stream (raw, []) = (raw', sent')" by simp
      from Cons.IH[OF this] blank True show ?thesis by simp
    next
      case False
      with blank Cons.prems have "SCWS_load_stream_loop tok None stream (add_sample tok sent raw, []) = (raw', sent')"
        by (simp add: Let_def)
      from Cons.IH[OF this] blank False show ?thesis
        by (simp add: add_sample_kept kept_Cons)
    qed
  next
    case False
    with Cons.prems have "SCWS_load_stream_loop tok None stream (raw, sent @ [rstrip_nl line]) = (raw', sent')" by simp
    from Cons.IH[OF this] False show ?thesis by simp
  qed
qed

lemma load_lines_Some:
  "0 < k \<Longrightarrow> int (length raw) < k \<Longrightarrow>
   SCWS_load_stream_loop tok (Some k) stream (raw, sent) = (raw', sent') \<Longrightarrow>
   (if sent' \<noteq> [] \<and> int (length raw') < k then add_sample tok sent' raw' else raw')
     = take (nat k) (raw @ kept tok (blocks_from sent stream))"
proof (induction stream arbitrary: raw sent)
  case Nil
  have "length (kept1 tok sent) \<le> 1" by (rule length_kept1)
  with Nil show ?case by (auto simp: add_sample_kept kept_Cons kept_Nil)
next
  case (Cons line stream)
  show ?case
  proof (cases "strip line = []")
    case blank: True
    show ?thesis
    proof (cases "sent = []")
      case True
      with blank Cons.prems have "SCWS_load_stream_loop tok (Some k) stream (raw, []) = (raw', sent')" by simp
      from Cons.IH[OF Cons.prems(1,2) this] blank True show ?thesis by simp
    next
      case ne: False
      let ?r = "add_sample tok sent raw"
      have len: "length ?r \<le> length raw + 1"
        using length_kept1[of tok sent] by (simp add: add_sample_kept)
      show ?thesis
      proof (cases "int (length ?r) \<ge> k")
        case True
        with blank ne Cons.prems have eq: "raw' = ?r" "sent' = sent" by (auto simp: Let_def)
        from True len Cons.prems(2) have "length ?r = nat k" by linarith
        then have "take (nat k) (?r @ kept tok (blocks_from [] stream)) = ?r" by simp
        moreover have "raw @ kept tok (blocks_from sent (line # stream)) = ?r @ kept tok (blocks_from [] stream)"
          using blank ne by (simp add: add_sample_kept kept_Cons)
        ultimately show ?thesis using eq True by simp
      next
        case False
        then have lt: "int (length ?r) < k" by simp
        from False blank ne Cons.prems have "SCWS_load_stream_loop tok (Some k) stream (?r, []) = (raw', sent')"
          by (auto simp: Let_def)
        from Cons.IH[OF Cons.prems(1) lt this] blank ne show ?thesis
          by (simp add: add_sample_kept kept_Cons)
      qed
    qed
  next
    case False
    with Cons.prems have "SCWS_load_stream_loop tok (Some k) stream (raw, sent @ [rstrip_nl line]) = (raw', sent')" by simp
    from Cons.IH[OF Cons.prems(1,2) this] False show ?thesis by simp
  qed
qed

text \<open>
  C5, the claim as stated fails: with \<open>max_samples = 1\<close> the loop stops after the first
  kept sample, and the second block, one subword long, is not in the loaded list.
\<close>

theorem C5_max_samples_counterexample:
  "SCWS_load_stream (\<lambda>w. [w]) (Some 1) [''a\<newline>'', ''\<newline>'', ''b\<newline>'', ''\<newline>'']
     = [\<lparr>SequenceClassificationWithSubwordsDataFields.raw_sentence = [''a''], labels = None, sentence_len = 1, tokens = [''a''],
          sentence_subword_len = 1, token_starts = [0, 1]\<rparr>]
   \<and> create_sentence_from_lines (\<lambda>w. [w]) [''b'']
     = \<lparr>SequenceClassificationWithSubwordsDataFields.raw_sentence = [''b''], labels = None, sentence_len = 1, tokens = [''b''],
          sentence_subword_len = 1, token_starts = [0, 1]\<rparr>
   \<and> blocks [''a\<newline>'', ''\<newline>'', ''b\<newline>'', ''\<newline>''] = [[''a''], [''b'']]"
  by (simp add: SCWS_load_stream_def add_sample_def create_sentence_from_lines_def ignore_sample_def
      strip_def lstrip_def rstrip_def rstrip_nl_def isspace_def blocks_def Let_def)

text \<open>
  C5, amended: \<open>load_stream\<close> never raises, and when \<open>max_samples\<close> is \<open>None\<close> the loaded
  list is exactly the samples of the stream's blocks with at most 500 subwords, in input
  order, every sample with more than 500 subwords being dropped; with a positive
  \<open>max_samples\<close> it is the first \<open>max_samples\<close> of them.
\<close>

theorem C5_load_stream_keeps_non_oversized:
  assumes "max_samples = None \<or> (\<exists>k. max_samples = Some k \<and> 0 < k)"
  shows "SCWS_load_stream tok max_samples stream =
     (case max_samples of
        None \<Rightarrow> kept tok (blocks stream)
      | Some k \<Rightarrow> take (nat k) (kept tok (blocks stream)))"
proof -
  obtain raw' sent' where r: "SCWS_load_stream_loop tok max_samples stream ([], []) = (raw', sent')"
    by (cases "SCWS_load_stream_loop tok max_samples stream ([], [])") auto
  from assms show ?thesis
  proof
    assume n: "max_samples = None"
    from load_lines_None[OF r[unfolded n]] r n show ?thesis
      by (simp add: SCWS_load_stream_def blocks_def)
  next
    assume "\<exists>k. max_samples = Some k \<and> 0 < k"
    then obtain k where k: "max_samples = Some k" "0 < k" by blast
    have "int (length ([]::SequenceClassificationWithSubwordsDataFields list)) < k"
      using k by simp
    from load_lines_Some[OF k(2) this r[unfolded k(1)]] k r show ?thesis
      by (simp add: SCWS_load_stream_def blocks_def)
  qed
qed

theorem C5_load_stream_keeps_non_oversized_witness:
  "SCWS_load_stream (\<lambda>w. if w = ''x'' then replicate 501 ''x'' else [w]) None [''a\<newline>'', ''\<newline>'', ''x\<newline>'', ''\<newline>'', ''b\<newline>'']
     = [\<lparr>SequenceClassificationWithSubwordsDataFields.raw_sentence = [''a''], labels = None, sentence_len = 1, tokens = [''a''],
          sentence_subword_len = 1, token_starts = [0, 1]\<rparr>,
        \<lparr>SequenceClassificationWithSubwordsDataFields.raw_sentence = [''b''], labels = None, sentence_len = 1, tokens = [''b''],
          sentence_subword_len = 1, token_starts = [0, 1]\<rparr>]
   \<and> SequenceClassificationWithSubwordsDataFields.sentence_subword_len
        (create_sentence_from_lines (\<lambda>w. if w = ''x'' then replicate 501 ''x'' else [w]) [''x''])
       = 501"
  using C5_load_stream_keeps_non_oversized
    [of None "\<lambda>w. if w = ''x'' then replicate 501 ''x'' else [w]" "[''a\<newline>'', ''\<newline>'', ''x\<newline>'', ''\<newline>'', ''b\<newline>'']"]
  by (simp add: kept_def create_sentence_from_lines_def
      strip_def lstrip_def rstrip_def rstrip_nl_def isspace_def blocks_def Let_def)

subsection \<open>The embedding table\<close>

lemma str_split_nonempty: "str_split c s \<noteq> []"
  by (induction s) (auto split: list.splits)

text \<open>
  C10, the claim as stated fails: a table that loaded no word (here an empty stream)
  has no row 0, and looking up any word raises \<open>IndexError\<close>.
\<close>

theorem C10_empty_table_counterexample:
  "Embedding_load_stream (\<lambda>s. None) None [] = Inr \<lparr>mtx = [], vocab = Map.empty\<rparr>
   \<and> vocab \<lparr>mtx = [], vocab = Map.empty\<rparr> ''cat'' = None
   \<and> Embedding_getitem \<lparr>mtx = [], vocab = Map.empty\<rparr> ''cat'' = Inl IndexError"
  by (simp add: Embedding_load_stream_def Embedding_getitem_def getitem_def)

text \<open>
  C10, amended: when the table holds at least one row, \<open>__getitem__\<close> of a word that is
  not in the vocabulary does not raise and returns row 0 of the matrix.
\<close>

theorem C10_getitem_absent_row0:
  "mtx e \<noteq> [] \<Longrightarrow> vocab e key = None \<Longrightarrow> Embedding_getitem e key = Inr (mtx e ! 0)"
  by (simp add: Embedding_getitem_def getitem_def)

theorem C10_getitem_absent_row0_witness:
  "mtx \<lparr>mtx = [[Fin 1, Fin 2]], vocab = [''cat'' \<mapsto> 0]\<rparr> \<noteq> []
   \<and> vocab \<lparr>mtx = [[Fin 1, Fin 2]], vocab = [''cat'' \<mapsto> 0]\<rparr> ''dog'' = None
   \<and> Embedding_getitem \<lparr>mtx = [[Fin 1, Fin 2]], vocab = [''cat'' \<mapsto> 0]\<rparr> ''dog''
       = Inr [Fin 1, Fin 2]"
  using C10_getitem_absent_row0
    [of "\<lparr>mtx = [[Fin 1, Fin 2]], vocab = [''cat'' \<mapsto> 0]\<rparr>" "''dog''"]
  by simp

subsection \<open>Indexing\<close>

lemma prefix_token_starts_ok:
  "ti + length tss \<le> length toks \<Longrightarrow>
   prefix_token_starts toks ti tss =
     Inr (map (\<lambda>(i, ts). 0 # map Suc ts @ [length (toks ! (ti + i)) + 1]) (enumerate 0 tss))"
proof (induction tss arbitrary: ti)
  case Nil
  then show ?case by simp
next
  case (Cons ts tss)
  have "Suc ti + length tss \<le> length toks" using Cons.prems by simp
  from Cons.IH[OF this] Cons.prems show ?case
    by (simp add: getitem_def enumerate_Suc_eq[of 0] map_prod_def split_def o_def)
qed

lemma int64_add_in_range:
  "- (2 ^ 63) \<le> t \<Longrightarrow> t < 2 ^ 63 - 1 \<Longrightarrow> int64_add t 1 = t + 1"
  by (simp add: int64_add_def)

lemma int64_add_wraps: "int64_add (2 ^ 63 - 1) 1 = - (2 ^ 63)"
  by (simp add: int64_add_def)

lemma np_array_add_in_range:
  "list_all (\<lambda>t. - (2 ^ 63) \<le> t \<and> t < 2 ^ 63 - 1) ts \<Longrightarrow>
   np_array_add ts 1 = Inr (map (\<lambda>t. t + 1) ts)"
proof -
  assume a: "list_all (\<lambda>t. - (2 ^ 63) \<le> t \<and> t < 2 ^ 63 - 1) ts"
  then have "list_all int64 ts"
    by (auto simp: list_all_iff int64_def)
  moreover from a have "map (\<lambda>t. int64_add t 1) ts = map (\<lambda>t. t + 1) ts"
    by (simp add: list_all_iff int64_add_in_range)
  ultimately show ?thesis by (simp add: np_array_add_def)
qed

text \<open>
  C6: on the containers the base \<open>to_idx\<close> has built (a row of token ids for every row
  of token starts), \<open>to_idx\<close> of the sequence-tagging and of the sentence-prober dataset
  replace every row of token starts by \<open>0\<close>, then each raw value plus one, then the
  number of token ids of that sample plus one; \<open>to_idx\<close> of the sentence-prober and of
  the mid-sentence dataset add one to every target index. Each value is shifted once.
  The target indices are shifted as 64-bit integers, so they are taken within that
  range and below its largest value, where adding one starts again at the smallest
  (\<open>int64_add_wraps\<close>).
\<close>

theorem C6_to_idx_shift_and_brackets:
  fixes a :: "'a SCWS_Mtx_scheme" and b :: "'b SPD_Mtx_scheme" and c :: "'c MSPD_Mtx_scheme"
  assumes "length (SCWS_Mtx.token_starts a) \<le> length (SCWS_Mtx.tokens a)"
      and "length (SPD_Mtx.token_starts b) \<le> length (SPD_Mtx.tokens b)"
      and "list_all (\<lambda>t. - (2 ^ 63) \<le> t \<and> t < 2 ^ 63 - 1) (SPD_Mtx.target_idx b)"
      and "list_all (\<lambda>t. - (2 ^ 63) \<le> t \<and> t < 2 ^ 63 - 1) (MSPD_Mtx.target_idx c)"
  shows "(\<exists>a'. SCWS_to_idx a = Inr a'
            \<and> length (SCWS_Mtx.token_starts a') = length (SCWS_Mtx.token_starts a)
            \<and> (\<forall>i < length (SCWS_Mtx.token_starts a).
                  SCWS_Mtx.token_starts a' ! i
                    = [0] @ map (\<lambda>t. t + 1) (SCWS_Mtx.token_starts a ! i)
                        @ [length (SCWS_Mtx.tokens a ! i) + 1]))
       \<and> (\<exists>b'. SPD_to_idx b = Inr b'
            \<and> length (SPD_Mtx.token_starts b') = length (SPD_Mtx.token_starts b)
            \<and> (\<forall>i < length (SPD_Mtx.token_starts b).
                  SPD_Mtx.token_starts b' ! i
                    = [0] @ map (\<lambda>t. t + 1) (SPD_Mtx.token_starts b ! i)
                        @ [length (SPD_Mtx.tokens b ! i) + 1])
            \<and> SPD_Mtx.target_idx b' = map (\<lambda>t. t + 1) (SPD_Mtx.target_idx b))
       \<and> (\<exists>c'. MSPD_to_idx c = Inr c'
            \<and> MSPD_Mtx.target_idx c' = map (\<lambda>t. t + 1) (MSPD_Mtx.target_idx c))"
proof -
  have A: "prefix_token_starts (SCWS_Mtx.tokens a) 0 (SCWS_Mtx.token_starts a) =
     Inr (map (\<lambda>(i, ts). 0 # map Suc ts @ [length (SCWS_Mtx.tokens a ! (0 + i)) + 1])
            (enumerate 0 (SCWS_Mtx.token_starts a)))"
    using assms(1) by (intro prefix_token_starts_ok) simp
  have B: "prefix_token_starts (SPD_Mtx.tokens b) 0 (SPD_Mtx.token_starts b) =
     Inr (map (\<lambda>(i, ts). 0 # map Suc ts @ [length (SPD_Mtx.tokens b ! (0 + i)) + 1])
            (enumerate 0 (SPD_Mtx.token_starts b)))"
    using assms(2) by (intro prefix_token_starts_ok) simp
  note Tb = np_array_add_in_range[OF assms(3)]
  note Tc = np_array_add_in_range[OF assms(4)]
  have 1: "\<exists>a'. SCWS_to_idx a = Inr a'
            \<and> length (SCWS_Mtx.token_starts a') = length (SCWS_Mtx.token_starts a)
            \<and> (\<forall>i < length (SCWS_Mtx.token_starts a).
                  SCWS_Mtx.token_starts a' ! i
                    = [0] @ map (\<lambda>t. t + 1) (SCWS_Mtx.token_starts a ! i)
                        @ [length (SCWS_Mtx.tokens a ! i) + 1])"
    by (simp add: SCWS_to_idx_def A nth_enumerate_eq)
  have 2: "\<exists>b'. SPD_to_idx b = Inr b'
            \<and> length (SPD_Mtx.token_starts b') = length (SPD_Mtx.token_starts b)
            \<and> (\<forall>i < length (SPD_Mtx.token_starts b).
                  SPD_Mtx.token_starts b' ! i
                    = [0] @ map (\<lambda>t. t + 1) (SPD_Mtx.token_starts b ! i)
                        @ [length (SPD_Mtx.tokens b ! i) + 1])
            \<and> SPD_Mtx.target_idx b' = map (\<lambda>t. t + 1) (SPD_Mtx.target_idx b)"
    by (simp add: SPD_to_idx_def B Tb nth_enumerate_eq)
  have 3: "\<exists>c'. MSPD_to_idx c = Inr c'
            \<and> MSPD_Mtx.target_idx c' = map (\<lambda>t. t + 1) (MSPD_Mtx.target_idx c)"
    by (simp add: MSPD_to_idx_def Tc)
  from 1 2 3 show ?thesis by blast
qed

theorem C6_to_idx_shift_and_brackets_witness:
  "SCWS_to_idx \<lparr>SCWS_Mtx.tokens = [[101, 7, 8, 9, 10, 11, 12, 102]], token_starts = [[0, 1, 3, 6]], labels = NoLabels\<rparr>
     = Inr \<lparr>SCWS_Mtx.tokens = [[101, 7, 8, 9, 10, 11, 12, 102]], token_starts = [[0, 1, 2, 4, 7, 9]], labels = NoLabels\<rparr>
   \<and> SPD_to_idx \<lparr>SPD_Mtx.tokens = [[101, 7, 8, 9, 10, 11, 12, 102]], token_starts = [[0, 1, 3]], target_idx = [1]\<rparr>
     = Inr \<lparr>SPD_Mtx.tokens = [[101, 7, 8, 9, 10, 11, 12, 102]], token_starts = [[0, 1, 2, 4, 9]], target_idx = [2]\<rparr>
   \<and> MSPD_to_idx \<lparr>MSPD_Mtx.target_idx = [3, 0, - 1, 9223372036854775806]\<rparr>
     = Inr \<lparr>MSPD_Mtx.target_idx = [4, 1, 0, 9223372036854775807]\<rparr>"
  using C6_to_idx_shift_and_brackets [of "\<lparr>SCWS_Mtx.tokens = [[101, 7, 8, 9, 10, 11, 12, 102]], token_starts = [[0, 1, 3, 6]], labels = NoLabels\<rparr>"
               "\<lparr>SPD_Mtx.tokens = [[101, 7, 8, 9, 10, 11, 12, 102]], token_starts = [[0, 1, 3]], target_idx = [1]\<rparr>"
               "\<lparr>MSPD_Mtx.target_idx = [3, 0, - 1, 9223372036854775806]\<rparr>"]
  by (simp add: SCWS_to_idx_def SPD_to_idx_def MSPD_to_idx_def getitem_def np_array_add_def
      int64_def int64_add_def)


subsection \<open>Padding the token starts of a batch\<close>

lemma pad_token_starts_ok:
  assumes "rows \<noteq> []"
  shows "pad_token_starts rows =
     Inr (map (\<lambda>sample. sample @ replicate (Max (length ` set rows) - length sample) 1000) rows)"
  using assms by (simp add: pad_token_starts_def Let_def)

lemma length_le_Max: "r \<in> set rows \<Longrightarrow> length r \<le> Max (length ` set rows)"
  by simp

lemma yield_until_error_all_ok:
  "\<forall>b \<in> set bs. \<exists>b'. f b = Inr b' \<Longrightarrow> yield_until_error f bs = map f bs"
  by (induction bs) auto


lemma SPD_pad_rows:
  assumes "SPD_Mtx.token_starts b \<noteq> []"
  shows "\<exists>b'. SPD_pad_batch b = Inr b'
     \<and> length (SPD_Mtx.token_starts b') = length (SPD_Mtx.token_starts b)
     \<and> (\<forall>i < length (SPD_Mtx.token_starts b).
          SPD_Mtx.token_starts b' ! i =
            SPD_Mtx.token_starts b ! i
              @ replicate (Max (length ` set (SPD_Mtx.token_starts b))
                             - length (SPD_Mtx.token_starts b ! i)) 1000
          \<and> length (SPD_Mtx.token_starts b' ! i) = Max (length ` set (SPD_Mtx.token_starts b)))"
proof -
  have "length (SPD_Mtx.token_starts b ! i) \<le> Max (length ` set (SPD_Mtx.token_starts b))"
    if "i < length (SPD_Mtx.token_starts b)" for i
    using that by (intro length_le_Max) simp
  then show ?thesis
    using assms by (simp add: SPD_pad_batch_def pad_token_starts_ok)
qed

lemma SCWS_pad_rows:
  assumes "SCWS_Mtx.token_starts b \<noteq> []"
  shows "\<exists>b'. SCWS_pad_batch b = Inr b'
     \<and> length (SCWS_Mtx.token_starts b') = length (SCWS_Mtx.token_starts b)
     \<and> (\<forall>i < length (SCWS_Mtx.token_starts b).
          SCWS_Mtx.token_starts b' ! i =
            SCWS_Mtx.token_starts b ! i
              @ replicate (Max (length ` set (SCWS_Mtx.token_starts b))
                             - length (SCWS_Mtx.token_starts b ! i)) 1000
          \<and> length (SCWS_Mtx.token_starts b' ! i) = Max (length ` set (SCWS_Mtx.token_starts b)))"
proof -
  have "length (SCWS_Mtx.token_starts b ! i) \<le> Max (length ` set (SCWS_Mtx.token_starts b))"
    if "i < length (SCWS_Mtx.token_starts b)" for i
    using that by (intro length_le_Max) simp
  then show ?thesis
    using assms by (simp add: SCWS_pad_batch_def pad_token_starts_ok)
qed

text \<open>
  C7: for batches that hold at least one sample, both \<open>batched_iter\<close> yield one batch
  per batch of the base iterator, and in the \<open>k\<close>-th every row of token starts is the
  sample's own row followed by copies of 1000 up to the longest row of that same batch.
\<close>

theorem C7_pad_to_batch_maximum:
  fixes bs :: "'a SPD_Mtx_scheme list" and cs :: "'b SCWS_Mtx_scheme list"
  assumes "\<forall>b \<in> set bs. SPD_Mtx.token_starts b \<noteq> []"
      and "\<forall>c \<in> set cs. SCWS_Mtx.token_starts c \<noteq> []"
  shows "length (SPD_batched_iter bs) = length bs
       \<and> (\<forall>k < length bs. \<exists>b'. SPD_batched_iter bs ! k = Inr b'
            \<and> length (SPD_Mtx.token_starts b') = length (SPD_Mtx.token_starts (bs ! k))
            \<and> (\<forall>i < length (SPD_Mtx.token_starts (bs ! k)).
                 SPD_Mtx.token_starts b' ! i =
                   SPD_Mtx.token_starts (bs ! k) ! i
                     @ replicate (Max (length ` set (SPD_Mtx.token_starts (bs ! k)))
                                    - length (SPD_Mtx.token_starts (bs ! k) ! i)) 1000
                 \<and> length (SPD_Mtx.token_starts b' ! i)
                     = Max (length ` set (SPD_Mtx.token_starts (bs ! k)))))
       \<and> length (SCWS_batched_iter cs) = length cs
       \<and> (\<forall>k < length cs. \<exists>c'. SCWS_batched_iter cs ! k = Inr c'
            \<and> length (SCWS_Mtx.token_starts c') = length (SCWS_Mtx.token_starts (cs ! k))
            \<and> (\<forall>i < length (SCWS_Mtx.token_starts (cs ! k)).
                 SCWS_Mtx.token_starts c' ! i =
                   SCWS_Mtx.token_starts (cs ! k) ! i
                     @ replicate (Max (length ` set (SCWS_Mtx.token_starts (cs ! k)))
                                    - length (SCWS_Mtx.token_starts (cs ! k) ! i)) 1000
                 \<and> length (SCWS_Mtx.token_starts c' ! i)
                     = Max (length ` set (SCWS_Mtx.token_starts (cs ! k)))))"
proof -
  have okb: "\<forall>b \<in> set bs. \<exists>b'. SPD_pad_batch b = Inr b'"
    using assms(1) SPD_pad_rows by blast
  have okc: "\<forall>c \<in> set cs. \<exists>c'. SCWS_pad_batch c = Inr c'"
    using assms(2) SCWS_pad_rows by blast
  have ib: "SPD_batched_iter bs = map SPD_pad_batch bs"
    unfolding SPD_batched_iter_def by (rule yield_until_error_all_ok[OF okb])
  have ic: "SCWS_batched_iter cs = map SCWS_pad_batch cs"
    unfolding SCWS_batched_iter_def by (rule yield_until_error_all_ok[OF okc])
  have nb: "SPD_Mtx.token_starts (bs ! k) \<noteq> []" if "k < length bs" for k
    using assms(1) that by simp
  have nc: "SCWS_Mtx.token_starts (cs ! k) \<noteq> []" if "k < length cs" for k
    using assms(2) that by simp
  show ?thesis
    using SPD_pad_rows[OF nb] SCWS_pad_rows[OF nc] by (simp add: ib ic)
qed

theorem C7_pad_to_batch_maximum_witness:
  "SPD_batched_iter
     [\<lparr>SPD_Mtx.tokens = [], token_starts = [[0, 1, 3, 5], [0, 1, 2, 4, 7, 9]], target_idx = []\<rparr>,
      \<lparr>SPD_Mtx.tokens = [], token_starts = [[0, 1, 3]], target_idx = []\<rparr>]
   = [Inr \<lparr>SPD_Mtx.tokens = [], token_starts = [[0, 1, 3, 5, 1000, 1000], [0, 1, 2, 4, 7, 9]], target_idx = []\<rparr>,
      Inr \<lparr>SPD_Mtx.tokens = [], token_starts = [[0, 1, 3]], target_idx = []\<rparr>]
   \<and> SCWS_batched_iter
     [\<lparr>SCWS_Mtx.tokens = [], token_starts = [[0, 1, 3, 5], [0, 1, 2, 4, 7, 9]], labels = PerSentence [[1, 2], [0, 0, 1, 2]]\<rparr>,
      \<lparr>SCWS_Mtx.tokens = [], token_starts = [[0, 1, 3]], labels = PerSentence [[4]]\<rparr>]
   = [Inr \<lparr>SCWS_Mtx.tokens = [], token_starts = [[0, 1, 3, 5, 1000, 1000], [0, 1, 2, 4, 7, 9]], labels = Flat [1, 2, 0, 0, 1, 2]\<rparr>,
      Inr \<lparr>SCWS_Mtx.tokens = [], token_starts = [[0, 1, 3]], labels = Flat [4]\<rparr>]"
  using C7_pad_to_batch_maximum [of "[\<lparr>SPD_Mtx.tokens = [], token_starts = [[0, 1, 3, 5], [0, 1, 2, 4, 7, 9]], target_idx = []\<rparr>,
      \<lparr>SPD_Mtx.tokens = [], token_starts = [[0, 1, 3]], target_idx = []\<rparr>]"
     "[\<lparr>SCWS_Mtx.tokens = [], token_starts = [[0, 1, 3, 5], [0, 1, 2, 4, 7, 9]], labels = PerSentence [[1, 2], [0, 0, 1, 2]]\<rparr>,
      \<lparr>SCWS_Mtx.tokens = [], token_starts = [[0, 1, 3]], labels = PerSentence [[4]]\<rparr>]"]
  by (simp add: SPD_batched_iter_def SCWS_batched_iter_def SPD_pad_batch_def SCWS_pad_batch_def
      pad_token_starts_def Let_def)

subsection \<open>Batches of the embedding prober\<close>




subsection \<open>Token starts of the raw samples\<close>

text \<open>
  The sequence-tagging extraction: the token starts of a block are one more than its
  words, begin at 0, end at the number of subwords, and the span between two
  consecutive entries is exactly the tokenization of the word.
\<close>

lemma upt_Suc_shift: "[0..<Suc n] = 0 # map Suc [0..<n]"
  by (simp add: upt_conv_Cons map_Suc_upt del: upt_Suc)

lemma create_sentence_loop_inv:
  "create_sentence_loop tok lines (sent, labs, starts, subs) = (sent', labs', starts', subs') \<Longrightarrow>
   sent' = sent @ block_words lines
   \<and> subs' = subs @ concat (map tok (block_words lines))
   \<and> starts' = starts @ map (\<lambda>i. length subs + length (concat (map tok (take i (block_words lines)))))
                          [0..<length lines]"
proof (induction lines arbitrary: sent labs starts subs)
  case Nil
  then show ?case by (simp add: block_words_def)
next
  case (Cons line lines)
  let ?w = "hd (str_split CHR 0x09 (rstrip_nl line))"
  obtain labs2 where
    step: "create_sentence_loop tok lines (sent @ [?w], labs2, starts @ [length subs], subs @ tok ?w)
             = (sent', labs', starts', subs')"
    using Cons.prems by (simp add: Let_def)
  have bw: "block_words (line # lines) = ?w # block_words lines"
    by (simp add: block_words_def)
  from Cons.IH[OF step] show ?case
    unfolding bw by (simp add: upt_Suc_shift o_def del: upt_Suc)
qed

lemma concat_take_slice:
  assumes "i < length xss"
  shows "slice (concat xss) (length (concat (take i xss))) (length (concat (take (Suc i) xss))) = xss ! i"
proof -
  have "concat xss = concat (take (Suc i) xss) @ concat (drop (Suc i) xss)"
    by (metis append_take_drop_id concat_append)
  then have "take (length (concat (take (Suc i) xss))) (concat xss) = concat (take (Suc i) xss)"
    by (metis append_eq_conv_conj)
  moreover have "concat (take (Suc i) xss) = concat (take i xss) @ xss ! i"
    using assms by (simp add: take_Suc_conv_app_nth)
  ultimately show ?thesis by (simp add: slice_def)
qed

lemma create_sentence_token_starts:
  "SequenceClassificationWithSubwordsDataFields.token_starts (create_sentence_from_lines tok lines)
     = map (\<lambda>i. length (concat (map tok (take i (block_words lines))))) [0..<Suc (length lines)]
   \<and> SequenceClassificationWithSubwordsDataFields.tokens (create_sentence_from_lines tok lines) = concat (map tok (block_words lines))
   \<and> SequenceClassificationWithSubwordsDataFields.raw_sentence (create_sentence_from_lines tok lines) = block_words lines"
proof -
  obtain sent' labs' starts' subs' where
    l: "create_sentence_loop tok lines ([], [], [], []) = (sent', labs', starts', subs')"
    by (metis prod_cases4)
  have len: "length (block_words lines) = length lines" by (simp add: block_words_def)
  from create_sentence_loop_inv[OF l] show ?thesis
    by (simp add: create_sentence_from_lines_def l len)
qed

lemma create_sentence_token_starts_tile:
  fixes tok lines
  defines "s \<equiv> create_sentence_from_lines tok lines"
  shows "length (SequenceClassificationWithSubwordsDataFields.token_starts s) = length (SequenceClassificationWithSubwordsDataFields.raw_sentence s) + 1"
    and "last (SequenceClassificationWithSubwordsDataFields.token_starts s) = length (SequenceClassificationWithSubwordsDataFields.tokens s)"
    and "hd (SequenceClassificationWithSubwordsDataFields.token_starts s) = 0"
    and "\<forall>i < length (SequenceClassificationWithSubwordsDataFields.raw_sentence s).
           slice (SequenceClassificationWithSubwordsDataFields.tokens s) (SequenceClassificationWithSubwordsDataFields.token_starts s ! i) (SequenceClassificationWithSubwordsDataFields.token_starts s ! (i + 1)) = tok (SequenceClassificationWithSubwordsDataFields.raw_sentence s ! i)"
proof -
  note f = create_sentence_token_starts[of tok lines, folded s_def]
  have len: "length (block_words lines) = length lines" by (simp add: block_words_def)
  show "length (SequenceClassificationWithSubwordsDataFields.token_starts s) = length (SequenceClassificationWithSubwordsDataFields.raw_sentence s) + 1"
    using f len by simp
  show "last (SequenceClassificationWithSubwordsDataFields.token_starts s) = length (SequenceClassificationWithSubwordsDataFields.tokens s)"
    using f len by (simp add: last_map del: upt_Suc) 
  show "hd (SequenceClassificationWithSubwordsDataFields.token_starts s) = 0"
    using f by (simp add: upt_Suc_shift del: upt_Suc)
  show "\<forall>i < length (SequenceClassificationWithSubwordsDataFields.raw_sentence s).
           slice (SequenceClassificationWithSubwordsDataFields.tokens s) (SequenceClassificationWithSubwordsDataFields.token_starts s ! i) (SequenceClassificationWithSubwordsDataFields.token_starts s ! (i + 1)) = tok (SequenceClassificationWithSubwordsDataFields.raw_sentence s ! i)"
  proof (intro allI impI)
    fix i assume i: "i < length (SequenceClassificationWithSubwordsDataFields.raw_sentence s)"
    then have il: "i < length lines" using f len by simp
    have a: "SequenceClassificationWithSubwordsDataFields.token_starts s ! i = length (concat (take i (map tok (block_words lines))))"
      using f il by (simp add: take_map nth_append del: upt_Suc)
    have b: "SequenceClassificationWithSubwordsDataFields.token_starts s ! (i + 1) = length (concat (take (Suc i) (map tok (block_words lines))))"
      using f il by (simp add: take_map nth_append del: upt_Suc)
    have "slice (concat (map tok (block_words lines))) (SequenceClassificationWithSubwordsDataFields.token_starts s ! i) (SequenceClassificationWithSubwordsDataFields.token_starts s ! (i + 1))
            = map tok (block_words lines) ! i"
      unfolding a b using il len by (intro concat_take_slice) simp
    then show "slice (SequenceClassificationWithSubwordsDataFields.tokens s) (SequenceClassificationWithSubwordsDataFields.token_starts s ! i) (SequenceClassificationWithSubwordsDataFields.token_starts s ! (i + 1)) = tok (SequenceClassificationWithSubwordsDataFields.raw_sentence s ! i)"
      using f il len by simp
  qed
qed

text \<open>
  C3, the failing input: for the line \<open>a bb ccc\<close> with target \<open>bb\<close> at index 1 and a
  tokenizer that splits a word into its characters, \<open>extract_sample_from_line\<close> of the
  sentence prober records the token starts \<open>[0, 1, 3]\<close>: three entries for three words,
  the last one the start of \<open>ccc\<close> and not the subword count 6. The sequence-tagging
  extraction gives \<open>[0, 1, 3, 6]\<close> for the same words.
\<close>

theorem C3_extract_sample_token_starts_lack_total:
  "SPD_extract_sample_from_line
     \<lparr>tokenizer = (\<lambda>w. map (\<lambda>c. [c]) w), MASK = ''[MASK]'', mask_positions = {}, bow = False\<rparr>
     (\<lambda>s. if s = ''1'' then Some 1 else None) id
     (''a bb ccc'' @ [CHR 0x09] @ ''bb'' @ [CHR 0x09] @ ''1\<newline>'')
   = Inr \<lparr>TokenInSequenceProberFields.raw_sentence = ''a bb ccc'', raw_target = ''bb'',
          raw_idx = 1, tokens = [''a'', ''b'', ''b'', ''c'', ''c'', ''c''], num_tokens = 6,
          target_idx = 1, label = None, token_starts = [0, 1, 3]\<rparr>
   \<and> SequenceClassificationWithSubwordsDataFields.token_starts
       (create_sentence_from_lines (\<lambda>w. map (\<lambda>c. [c]) w)
          [''a\<newline>'', ''bb\<newline>'', ''ccc\<newline>''])
     = [0, 1, 3, 6]"
  by (simp add: SPD_extract_sample_from_line_def create_sentence_from_lines_def
      rstrip_nl_def Let_def getitem_int_def)

subsection \<open>Bag-of-words shuffling\<close>

text \<open>
  C2, the failing input: the line \<open>red fox\<close> with target \<open>red\<close> at index 0, one subword
  per word, bag-of-words mode, and the shuffle outcome that swaps the two words. The
  tokens become \<open>fox red\<close>; the inverse permutation \<open>argsort\<close> maps the target to position
  1, but the sample records \<open>target_idx = 0\<close>, the position of \<open>fox\<close>.
\<close>

theorem C2_bow_records_raw_index:
  "SPD_extract_sample_from_line
     \<lparr>tokenizer = (\<lambda>w. [w]), MASK = ''[MASK]'', mask_positions = {}, bow = True\<rparr>
     (\<lambda>s. if s = ''0'' then Some 0 else None) rev
     (''red fox'' @ [CHR 0x09] @ ''red'' @ [CHR 0x09] @ ''0\<newline>'')
   = Inr \<lparr>TokenInSequenceProberFields.raw_sentence = ''red fox'', raw_target = ''red'',
          raw_idx = 0, tokens = [''fox'', ''red''], num_tokens = 2,
          target_idx = 0, label = None, token_starts = [0, 1]\<rparr>
   \<and> argsort (rev [0..<2]) ! 0 = 1"
  by (simp add: SPD_extract_sample_from_line_def rstrip_nl_def Let_def getitem_int_def
      getitem_def perform_bow_def argsort_def upt_rec)


subsection \<open>Steps that can raise\<close>

lemma and_then_Inr_iff:
  "and_then r f = Inr y \<longleftrightarrow> (\<exists>x. r = Inr x \<and> f x = Inr y)"
  by (cases r) (simp_all add: and_then_def)

lemma and_then_Inr [simp]: "and_then (Inr x) f = f x"
  by (simp add: and_then_def)

lemma and_then_Inl [simp]: "and_then (Inl e) f = Inl e"
  by (simp add: and_then_def)

subsection \<open>Element-wise pooling\<close>

text \<open>
  C1, the failing input: one sentence whose positions hold the vectors \<open>0, 1, 3, 0\<close>,
  token starts \<open>0, 1, 3, 5\<close> and target index 1, so the target's span is the positions 1
  and 2. The element-wise maximum over the span is \<open>3\<close>, and the sequence-tagging model
  returns it. \<open>_forward_elementwise_pool\<close> with \<open>max\<close> computes the maximum and then
  falls into the \<open>else\<close> of the test for \<open>sum\<close>: it returns the mean \<open>2\<close>.
\<close>

theorem C1_elementwise_pool_max_returns_mean:
  "SRP_forward_elementwise_pool
     \<lparr>SRP.embedder = \<lparr>encoder = (\<lambda>X lens. [[[[Fin 0], [Fin 1], [Fin 3], [Fin 0]]]]),
                       layer_pooling = LayerName ''all'', softmax_weights = [], hidden_size = 1\<rparr>,
      subword_pooling = ''max'', layer_pooling = LayerIndex 0, shift_target = 0,
      softmax_weights = [], other_pooling = (\<lambda>name emb batch. Inl Unmodelled)\<rparr>
     [[[Fin 0], [Fin 1], [Fin 3], [Fin 0]]]
     \<lparr>input = [[101, 7, 8, 102]], input_len = [4], sentence_subword_len = [4], sentence_len = [1],
      probe_target_idx = [1], token_starts = [[0, 1, 3, 5]]\<rparr>
   = Inr [[Fin 2]]
   \<and> slice [[Fin 0], [Fin 1], [Fin 3], [Fin 0]] 1 3 = [[Fin 1], [Fin 3]]
   \<and> span_max [[Fin 1], [Fin 3]] = Inr [Fin 3]
   \<and> TST_pool_spans ''max'' 1 [[[Fin 0], [Fin 1], [Fin 3], [Fin 0]]]
       \<lparr>input = [[101, 7, 8, 102]], input_len = [4], sentence_subword_len = [4], sentence_len = [1],
        probe_target_idx = [1], token_starts = [[0, 1, 3, 5]]\<rparr> 1
     = Inr [[Fin 3]]"
  by (simp add: SRP_forward_elementwise_pool_def index_pairs_def broadcast2_def getitem_def
      getitem_int_def elementwise_o_def span_max_def span_mean_def span_sum_def vec_add_def
      slice_def stack_def TST_pool_spans_def TST_pool_word_def Let_def upt_rec)

subsection \<open>The pooling caches\<close>

lemma collect_LongTensor_row_ok:
  "list_all (\<lambda>r. length r = n) rows \<Longrightarrow> list_all int64 (concat rows) \<Longrightarrow>
   collect (map (LongTensor_row n) rows) = Inr rows"
  by (induction rows) (simp_all add: LongTensor_row_def)

lemma collect_LongTensor_row_Inr:
  "collect (map (LongTensor_row n) rows) = Inr X \<Longrightarrow>
   X = rows \<and> list_all (\<lambda>r. length r = n) rows \<and> list_all int64 (concat rows)"
proof (induction rows arbitrary: X)
  case Nil
  then show ?case by simp
next
  case (Cons r rows)
  have r: "LongTensor_row n r = Inr r \<and> length r = n \<and> list_all int64 r"
    using Cons.prems
    by (cases "length r = n"; cases "list_all int64 r") (simp_all add: LongTensor_row_def)
  then obtain X' where c: "collect (map (LongTensor_row n) rows) = Inr X'" and X: "X = r # X'"
    using Cons.prems by (cases "collect (map (LongTensor_row n) rows)") auto
  from Cons.IH[OF c] X r show ?case by simp
qed

lemma collect_LongTensor_row:
  "collect (map (LongTensor_row n) rows) = Inr X \<longleftrightarrow>
     X = rows \<and> list_all (\<lambda>r. length r = n) rows \<and> list_all int64 (concat rows)"
  using collect_LongTensor_row_ok[of n rows] collect_LongTensor_row_Inr[of n rows X] by blast

lemma LongTensor_Inr_iff:
  "LongTensor rows = Inr X \<longleftrightarrow>
     X = rows \<and> rectangular rows \<and> list_all int64 (concat rows)"
  by (simp add: LongTensor_def rectangular_def collect_LongTensor_row)

lemma LongTensor_overflow: "LongTensor [[101, 2 ^ 63, 102]] = Inl RuntimeError"
  by (simp add: LongTensor_def LongTensor_row_def int64_def)

lemma np_flat_Inr_iff:
  "np_flat rows = Inr k \<longleftrightarrow> rectangular rows \<and> k = concat rows"
  by (auto simp: np_flat_def)

lemma LongTensor_same_flat:
  assumes "LongTensor rows = Inr X" "np_flat rows = Inr k" "np_flat rows' = Inr k"
  shows "LongTensor rows' = Inr rows'"
  using assms by (simp add: LongTensor_Inr_iff np_flat_Inr_iff)

lemma TST_cache_after:
  assumes "TST_forward_with_cache self st b = Inr (out, st')"
  shows "\<exists>k X. LongTensor (input b) = Inr X \<and> np_flat (input b) = Inr k
            \<and> TST_state.cache st' k = Some out"
  using assms
  by (auto simp: TST_forward_with_cache_def and_then_Inr_iff split: if_splits option.splits)

lemma TST_cache_hit:
  assumes "LongTensor (input b) = Inr X" "np_flat (input b) = Inr k"
          "TST_state.cache st k = Some out"
  shows "TST_forward_with_cache self st b = Inr (out, st)"
  using assms
  by (simp add: TST_forward_with_cache_def)

lemma TST_second_call:
  assumes "TST_forward_with_cache self st b = Inr (out, st')"
      and "np_flat (input b') = np_flat (input b)"
  shows "TST_forward_with_cache self st' b' = Inr (out, st')"
proof -
  from TST_cache_after[OF assms(1)] obtain k X where
    k: "LongTensor (input b) = Inr X" "np_flat (input b) = Inr k"
       "TST_state.cache st' k = Some out" by blast
  from k(2) assms(2) have f: "np_flat (input b') = Inr k" by simp
  from LongTensor_same_flat[OF k(1) k(2) f] have "LongTensor (input b') = Inr (input b')" .
  from TST_cache_hit[OF this f k(3)] show ?thesis .
qed

lemma SRP_ffl_after:
  assumes "SRP_forward_first_last self st b = Inr (out, st')"
  shows "\<exists>k v. np_flat (input b) = Inr k \<and> SRP_state.cache st' (k, probe_target_idx b) = Some v
            \<and> SRP_read self v = Inr out"
  using assms
  by (auto simp: SRP_forward_first_last_def and_then_Inr_iff Let_def
           split: if_splits option.splits)

lemma SRP_ffl_hit:
  assumes "np_flat (input b) = Inr k" "SRP_state.cache st (k, probe_target_idx b) = Some v"
          "SRP_read self v = Inr out"
  shows "SRP_forward_first_last self st b = Inr (out, st)"
  using assms
  by (simp add: SRP_forward_first_last_def Let_def)

lemma SRP_second_call:
  assumes "SRP_forward_first_last self st b = Inr (out, st')"
      and "np_flat (input b') = np_flat (input b)"
      and "probe_target_idx b' = probe_target_idx b"
  shows "SRP_forward_first_last self st' b' = Inr (out, st')"
proof -
  from SRP_ffl_after[OF assms(1)] obtain k v where
    k: "np_flat (input b) = Inr k" "SRP_state.cache st' (k, probe_target_idx b) = Some v"
       "SRP_read self v = Inr out" by blast
  from k(1) assms(2) have 1: "np_flat (input b') = Inr k" by simp
  from k(2) assms(3) have 2: "SRP_state.cache st' (k, probe_target_idx b') = Some v" by simp
  from SRP_ffl_hit[OF 1 2 k(3)] show ?thesis .
qed

lemma SRP_uncached:
  assumes "SRP.subword_pooling self \<noteq> ''first''" "SRP.subword_pooling self \<noteq> ''last''"
      and "SRP_forward self st b = Inr (out, st')"
  shows "st' = st\<lparr>SRP_state.encoder_calls := SRP_state.encoder_calls st + 1\<rparr>"
  using assms
  by (auto simp: SRP_forward_def Let_def and_then_Inr_iff)

text \<open>
  C4, the claim as stated fails for the per-target model with \<open>max\<close>, \<open>avg\<close> and
  \<open>sum\<close>: two calls on the same batch with \<open>sum\<close> run the encoder twice, and the
  cache stays empty.
\<close>

theorem C4_uncached_pooling_counterexample:
  "SRP_forward
     \<lparr>SRP.embedder = \<lparr>encoder = (\<lambda>X lens. [[[[Fin 0], [Fin 1], [Fin 3], [Fin 0]]]]),
                       layer_pooling = LayerName ''all'', softmax_weights = [], hidden_size = 1\<rparr>,
      subword_pooling = ''sum'', layer_pooling = LayerIndex 0, shift_target = 0,
      softmax_weights = [], other_pooling = (\<lambda>name emb batch. Inl Unmodelled)\<rparr>
     \<lparr>SRP_state.cache = Map.empty, encoder_calls = 0\<rparr>
     \<lparr>input = [[101, 7, 8, 102]], input_len = [4], sentence_subword_len = [4], sentence_len = [1],
      probe_target_idx = [1], token_starts = [[0, 1, 3, 5]]\<rparr>
   = Inr ([[Fin 4]], \<lparr>SRP_state.cache = Map.empty, encoder_calls = 1\<rparr>)
   \<and> SRP_forward
     \<lparr>SRP.embedder = \<lparr>encoder = (\<lambda>X lens. [[[[Fin 0], [Fin 1], [Fin 3], [Fin 0]]]]),
                       layer_pooling = LayerName ''all'', softmax_weights = [], hidden_size = 1\<rparr>,
      subword_pooling = ''sum'', layer_pooling = LayerIndex 0, shift_target = 0,
      softmax_weights = [], other_pooling = (\<lambda>name emb batch. Inl Unmodelled)\<rparr>
     \<lparr>SRP_state.cache = Map.empty, encoder_calls = 1\<rparr>
     \<lparr>input = [[101, 7, 8, 102]], input_len = [4], sentence_subword_len = [4], sentence_len = [1],
      probe_target_idx = [1], token_starts = [[0, 1, 3, 5]]\<rparr>
   = Inr ([[Fin 4]], \<lparr>SRP_state.cache = Map.empty, encoder_calls = 2\<rparr>)"
  by (simp add: SRP_forward_def SRP_embedded_layer_def LongTensor_def LongTensor_row_def int64_def rectangular_def
      Embedder_embed_def stack_def getitem_int_def SRP_pooling_func_def
      SRP_forward_elementwise_pool_def index_pairs_def broadcast2_def getitem_def
      elementwise_o_def span_sum_def vec_add_def slice_def Let_def upt_rec)

text \<open>
  C4, amended: in the sequence-tagging model, for each of \<open>first\<close>, \<open>last\<close>, \<open>max\<close>,
  \<open>avg\<close>, \<open>sum\<close>, after a forward call that returned, a call on any batch with the
  same flattened token ids returns the same pooled matrix and leaves the state, hence
  the count of encoder runs, as it is. In the per-target model the same holds for
  \<open>first\<close> and \<open>last\<close>, for a batch with the same flattened token ids and the same
  target indices. For every other pooling the per-target model runs the encoder on each
  call that returns and stores nothing.
\<close>

theorem C4_cached_second_call:
  fixes tst :: TST and srp :: SRP
  shows
  "(TST.subword_pooling tst \<in> {''first'', ''last'', ''max'', ''avg'', ''sum''}
      \<longrightarrow> TST_forward tst ts b = Inr (out, ts')
      \<longrightarrow> np_flat (input b') = np_flat (input b)
      \<longrightarrow> TST_forward tst ts' b' = Inr (out, ts'))
   \<and> (SRP.subword_pooling srp \<in> {''first'', ''last''}
      \<longrightarrow> SRP_forward srp ss c = Inr (vecs, ss')
      \<longrightarrow> np_flat (input c') = np_flat (input c) \<and> probe_target_idx c' = probe_target_idx c
      \<longrightarrow> SRP_forward srp ss' c' = Inr (vecs, ss'))
   \<and> (SRP.subword_pooling srp \<notin> {''first'', ''last''}
      \<longrightarrow> SRP_forward srp ss c = Inr (vecs, ss')
      \<longrightarrow> ss' = ss\<lparr>SRP_state.encoder_calls := SRP_state.encoder_calls ss + 1\<rparr>)"
proof (intro conjI impI)
  assume sp: "TST.subword_pooling tst \<in> {''first'', ''last'', ''max'', ''avg'', ''sum''}"
     and f: "TST_forward tst ts b = Inr (out, ts')"
     and k: "np_flat (input b') = np_flat (input b)"
  have d: "TST_forward tst st x = TST_forward_with_cache tst st x" for st x
    using sp by (auto simp: TST_forward_def TST_pooling_func_def)
  from TST_second_call[of tst ts b out ts' b'] f k show "TST_forward tst ts' b' = Inr (out, ts')"
    by (simp add: d)
next
  assume sp: "SRP.subword_pooling srp \<in> {''first'', ''last''}"
     and f: "SRP_forward srp ss c = Inr (vecs, ss')"
     and k: "np_flat (input c') = np_flat (input c) \<and> probe_target_idx c' = probe_target_idx c"
  have d: "SRP_forward srp st x = SRP_forward_first_last srp st x" for st x
    using sp by (auto simp: SRP_forward_def)
  from SRP_second_call[of srp ss c vecs ss' c'] f k show "SRP_forward srp ss' c' = Inr (vecs, ss')"
    by (simp add: d)
next
  assume "SRP.subword_pooling srp \<notin> {''first'', ''last''}"
     and "SRP_forward srp ss c = Inr (vecs, ss')"
  then show "ss' = ss\<lparr>SRP_state.encoder_calls := SRP_state.encoder_calls ss + 1\<rparr>"
    using SRP_uncached[of srp ss c vecs ss'] by simp
qed


theorem C4_cached_second_call_witness:
  "TST_forward
     \<lparr>TST.embedder = \<lparr>encoder = (\<lambda>X lens. [[[[Fin 0], [Fin 1], [Fin 3], [Fin 0]]]]),
                       layer_pooling = LayerName ''last'', softmax_weights = [], hidden_size = 1\<rparr>,
      subword_pooling = ''max'', other_pooling = (\<lambda>name emb batch. Inl Unmodelled)\<rparr>
     \<lparr>TST_state.cache = [[101, 7, 8, 102] \<mapsto> [[Fin 3]]], encoder_calls = 1\<rparr>
     \<lparr>input = [[101, 7], [8, 102]], input_len = [2, 2], sentence_subword_len = [2, 2],
      sentence_len = [0, 0], probe_target_idx = [], token_starts = [[0, 1], [0, 1]]\<rparr>
   = Inr ([[Fin 3]], \<lparr>TST_state.cache = [[101, 7, 8, 102] \<mapsto> [[Fin 3]]], encoder_calls = 1\<rparr>)
   \<and> SRP_forward
     \<lparr>SRP.embedder = \<lparr>encoder = (\<lambda>X lens. [[[[Fin 0], [Fin 1], [Fin 3], [Fin 0]]]]),
                       layer_pooling = LayerName ''all'', softmax_weights = [], hidden_size = 1\<rparr>,
      subword_pooling = ''last'', layer_pooling = LayerIndex 0, shift_target = 0,
      softmax_weights = [], other_pooling = (\<lambda>name emb batch. Inl Unmodelled)\<rparr>
     \<lparr>SRP_state.cache = [([101, 7, 8, 102], [1]) \<mapsto> Vecs [[Fin 3]]], encoder_calls = 1\<rparr>
     \<lparr>input = [[101, 7, 8, 102]], input_len = [4], sentence_subword_len = [4], sentence_len = [1],
      probe_target_idx = [1], token_starts = [[0, 1, 3, 5]]\<rparr>
   = Inr ([[Fin 3]],
          \<lparr>SRP_state.cache = [([101, 7, 8, 102], [1]) \<mapsto> Vecs [[Fin 3]]], encoder_calls = 1\<rparr>)"
proof -
  let ?tst = "\<lparr>TST.embedder = \<lparr>encoder = (\<lambda>X lens. [[[[Fin 0], [Fin 1], [Fin 3], [Fin 0]]]]),
                       layer_pooling = LayerName ''last'', softmax_weights = [], hidden_size = 1\<rparr>,
      subword_pooling = ''max'', other_pooling = (\<lambda>name emb batch. Inl Unmodelled)\<rparr>"
  let ?srp = "\<lparr>SRP.embedder = \<lparr>encoder = (\<lambda>X lens. [[[[Fin 0], [Fin 1], [Fin 3], [Fin 0]]]]),
                       layer_pooling = LayerName ''all'', softmax_weights = [], hidden_size = 1\<rparr>,
      subword_pooling = ''last'', layer_pooling = LayerIndex 0, shift_target = 0,
      softmax_weights = [], other_pooling = (\<lambda>name emb batch. Inl Unmodelled)\<rparr>"
  let ?b = "\<lparr>input = [[101, 7, 8, 102]], input_len = [4], sentence_subword_len = [4], sentence_len = [1],
      probe_target_idx = [1], token_starts = [[0, 1, 3, 5]]\<rparr>"
  let ?b' = "\<lparr>input = [[101, 7], [8, 102]], input_len = [2, 2], sentence_subword_len = [2, 2],
      sentence_len = [0, 0], probe_target_idx = [], token_starts = [[0, 1], [0, 1]]\<rparr>"
  let ?ts0 = "\<lparr>TST_state.cache = Map.empty, encoder_calls = 0\<rparr>"
  let ?ts1 = "\<lparr>TST_state.cache = [[101, 7, 8, 102] \<mapsto> [[Fin 3]]], encoder_calls = 1\<rparr>"
  let ?ss0 = "\<lparr>SRP_state.cache = Map.empty, encoder_calls = 0\<rparr>"
  let ?ss1 = "\<lparr>SRP_state.cache = [([101, 7, 8, 102], [1]) \<mapsto> Vecs [[Fin 3]]], encoder_calls = 1\<rparr>"
  have t1: "TST_forward ?tst ?ts0 ?b = Inr ([[Fin 3]], ?ts1)"
    by (simp add: TST_forward_def TST_pooling_func_def TST_forward_with_cache_def TST_compute_def
        LongTensor_def LongTensor_row_def int64_def np_flat_def rectangular_def Embedder_embed_def getitem_int_def
        TST_pool_spans_def TST_pool_word_def getitem_def span_max_def slice_def stack_def
        Let_def upt_rec)
  have s1: "SRP_forward ?srp ?ss0 ?b = Inr ([[Fin 3]], ?ss1)"
    by (simp add: SRP_forward_def SRP_forward_first_last_def SRP_compute_first_last_def
        SRP_read_def LongTensor_def LongTensor_row_def int64_def np_flat_def rectangular_def Embedder_embed_def stack_def
        index_pairs_def index_pairs_layers_def broadcast2_def getitem_def getitem_int_def
        Let_def upt_rec)
  have k: "np_flat (input ?b') = np_flat (input ?b)"
    by (simp add: np_flat_def rectangular_def)
  from C4_cached_second_call [of ?tst ?ts0 ?b "[[Fin 3]]" ?ts1 ?b' ?srp ?ss0 ?b "[[Fin 3]]" ?ss1 ?b] t1 s1 k
  show ?thesis by simp
qed


subsection \<open>Unknown pooling names\<close>













subsection \<open>Supporting facts: index sorting and merged word pieces\<close>

text \<open>
  \<^verbatim>\<open>np.argsort\<close> of a permutation of \<^verbatim>\<open>range(n)\<close> is its inverse, so
  \<^verbatim>\<open>_perform_bow\<close> returns the position at which the target word landed after the
  shuffle.  The word-piece merge of \<^verbatim>\<open>extract_sample_from_line\<close> records one start
  offset per word and nothing else.
\<close>

lemma argsort_sorted_values:
  assumes "mset p = mset [0..<n]"
  shows "map (\<lambda>j. p ! j) (argsort p) = [0..<n]" and "length (argsort p) = n"
    and "set (argsort p) = {0..<n}"
proof -
  have len: "length p = n" using assms by (metis length_upt mset_eq_length minus_nat.diff_0)
  have "mset (map (\<lambda>j. p ! j) (argsort p)) = mset (map (\<lambda>j. p ! j) [0..<length p])"
    by (simp add: argsort_def)
  also have "map (\<lambda>j. p ! j) [0..<length p] = p" by (rule map_nth)
  finally have m: "mset (map (\<lambda>j. p ! j) (argsort p)) = mset [0..<n]" using assms by simp
  have s: "sorted (map (\<lambda>j. p ! j) (argsort p))" by (simp add: argsort_def)
  have "sort [0..<n] = map (\<lambda>j. p ! j) (argsort p)"
    using m s by (intro properties_for_sort) simp_all
  then show "map (\<lambda>j. p ! j) (argsort p) = [0..<n]" by (simp add: sorted_sort_id)
  show "length (argsort p) = n" using len by (simp add: argsort_def)
  show "set (argsort p) = {0..<n}" using len by (simp add: argsort_def)
qed

lemma argsort_inverse:
  assumes "mset p = mset [0..<n]" "i < n"
  shows "argsort p ! i < n" and "p ! (argsort p ! i) = i"
proof -
  have l: "length (argsort p) = n" by (rule argsort_sorted_values(2)[OF assms(1)])
  have "argsort p ! i \<in> set (argsort p)" using assms(2) l by simp
  then show "argsort p ! i < n" using argsort_sorted_values(3)[OF assms(1)] by simp
  have "map (\<lambda>j. p ! j) (argsort p) ! i = [0..<n] ! i"
    using argsort_sorted_values(1)[OF assms(1)] by simp
  then show "p ! (argsort p ! i) = i" using assms(2) l by simp
qed

lemma getitems_in_range:
  "\<forall>i \<in> set idx. i < length xs \<Longrightarrow> getitems xs idx = Inr (map (\<lambda>i. xs ! i) idx)"
  by (induction idx) (simp_all add: getitem_def)

lemma perform_bow_position:
  assumes "mset (shuffle [0..<length tokenized]) = mset [0..<length tokenized]"
      and "i < length tokenized"
  shows "\<exists>shuffled pos. perform_bow shuffle tokenized (int i) = Inr (shuffled, int pos)
           \<and> pos < length shuffled \<and> shuffled ! pos = tokenized ! i"
proof -
  let ?n = "length tokenized" and ?p = "shuffle [0..<length tokenized]"
  have setp: "set ?p = {0..<?n}" using assms(1) by (metis mset_eq_setD set_upt)
  have lenp: "length ?p = ?n" using assms(1) by (metis length_upt mset_eq_length minus_nat.diff_0)
  have g: "getitems tokenized ?p = Inr (map (\<lambda>j. tokenized ! j) ?p)"
    using setp by (intro getitems_in_range) simp
  have la: "length (argsort ?p) = ?n" by (rule argsort_sorted_values(2)[OF assms(1)])
  have gi: "getitem_int (argsort ?p) (int i) = Inr (argsort ?p ! i)"
    using assms(2) la by (simp add: getitem_int_def)
  have lt: "argsort ?p ! i < ?n" and inv: "?p ! (argsort ?p ! i) = i"
    using argsort_inverse[OF assms] by simp_all
  have "perform_bow shuffle tokenized (int i)
          = Inr (map (\<lambda>j. tokenized ! j) ?p, int (argsort ?p ! i))"
    by (simp add: perform_bow_def Let_def g gi)
  moreover have "map (\<lambda>j. tokenized ! j) ?p ! (argsort ?p ! i) = tokenized ! i"
    using lt lenp inv by simp
  ultimately show ?thesis using lt lenp by auto
qed

lemma merge_pieces_inv:
  "merge_pieces ps (merged, starts) =
     (merged @ concat ps,
      starts @ map (\<lambda>i. length merged + length (concat (take i ps))) [0..<length ps])"
proof (induction ps arbitrary: merged starts)
  case Nil
  then show ?case by simp
next
  case (Cons p ps)
  show ?case
    by (simp add: Cons.IH upt_Suc_shift o_def del: upt_Suc)
qed

lemma extract_token_starts_length:
  assumes "\<not> bow self"
      and "SPD_extract_sample_from_line self int' shuffle line = Inr s"
  shows "length (TokenInSequenceProberFields.token_starts s)
           = length (str_split CHR '' '' (TokenInSequenceProberFields.raw_sentence s))"
  using assms
  by (auto simp: SPD_extract_sample_from_line_def Let_def merge_pieces_inv
           split: if_splits option.splits sum.splits)

end
